theory Spec2Isabelle
  imports Main "HOL-Library.Word"
begin

unbundle bit_operations_syntax

section \<open>The block driver of block.c\<close>

text \<open>
  A shallow embedding of \<^verbatim>\<open>block.c\<close>: the device state \<^verbatim>\<open>struct BlockDriverState\<close>,
  the bitmap helpers, the run scanner \<^verbatim>\<open>is_changed\<close>, and the operations
  \<^verbatim>\<open>bdrv_open\<close>, \<^verbatim>\<open>bdrv_close\<close>, \<^verbatim>\<open>bdrv_read\<close>, \<^verbatim>\<open>bdrv_write\<close>, \<^verbatim>\<open>bdrv_commit\<close>
  and \<^verbatim>\<open>bdrv_get_geometry\<close>.

  Conventions of the embedding.
  \<^item> The values of the C types \<^verbatim>\<open>int\<close> (32 bits) and \<^verbatim>\<open>int64_t\<close> are integers. Where
    the source computes a byte count \<^verbatim>\<open>n * 512\<close> in \<^verbatim>\<open>int\<close> or a file offset in
    \<^verbatim>\<open>int64_t\<close> and the value leaves the range of the type, C leaves the program
    undefined and the model stops with \<open>Inl Int_overflow\<close>. A value that is stored
    into the \<^verbatim>\<open>int\<close> field \<^verbatim>\<open>cow_bitmap_size\<close> is reduced to 32 bits. The fields of the
    COW header and the modification times are machine words.
  \<^item> A function that returns \<^verbatim>\<open>int\<close> and changes the device state or the files returns
    the C return value together with the new state.
  \<^item> An access to the dirty bitmap outside the mapped array, or with a negative bit
    number, is undefined in C. The model stops there with \<open>Inl Out_of_bounds\<close>, so a
    theorem about a result \<open>Inr r\<close> is a theorem about a run that stayed inside the array
    and inside the ranges of its types.
  \<^item> The operating system is an explicit value \<open>sys\<close>: files with their bytes, the
    descriptor table with one offset per open descriptor, the mappings that are
    shared with a file, and the text sent to \<^verbatim>\<open>stderr\<close>.
  \<^item> The dirty bitmap is kept by value in the device state. Where it is a mapping
    shared with a file, every bit that \<^verbatim>\<open>bdrv_write\<close> sets is stored in the file too.
    A \<^verbatim>\<open>write\<close> into the mapped part of that file would change the array from
    outside, which a value cannot follow: the model stops there with
    \<open>Inl Write_in_mapping\<close>. This is a limit of the model and not a fault of the
    program; a theorem about a result \<open>Inr r\<close> says nothing of such a run.
\<close>

subsection \<open>Bytes and the operating system\<close>

type_synonym byte = "8 word"

datatype fault = Out_of_bounds | Int_overflow | Write_in_mapping

text \<open>The ranges of \<^verbatim>\<open>int\<close> and of \<^verbatim>\<open>int64_t\<close>, and the value that a conversion to
  \<^verbatim>\<open>int\<close> stores.\<close>

definition fits_int :: "int \<Rightarrow> bool" where
  "fits_int x = (- 2147483648 \<le> x \<and> x \<le> 2147483647)"

definition fits_int64 :: "int \<Rightarrow> bool" where
  "fits_int64 x = (- 9223372036854775808 \<le> x \<and> x \<le> 9223372036854775807)"

definition to_int :: "int \<Rightarrow> int" where
  "to_int x = sint (word_of_int x :: 32 word)"

text \<open>A file of the file system: its bytes, its modification time (a 32-bit
  \<^verbatim>\<open>time_t\<close>) and whether it may be opened for writing.\<close>

record inode =
  data :: "byte list"
  st_mtime :: "32 word"
  writable :: bool

text \<open>An open descriptor: the file it refers to, its offset, and whether it was opened
  \<^verbatim>\<open>O_RDWR\<close> (otherwise \<^verbatim>\<open>O_RDONLY\<close>).\<close>

record ofd =
  ino :: nat
  pos :: nat
  rdwr :: bool

text \<open>One call of \<^verbatim>\<open>fprintf(stderr, format, ...)\<close> or \<^verbatim>\<open>perror(s)\<close>.\<close>

datatype arg = Str string | LL int

datatype diag = Fprintf string "arg list" | Perror string

text \<open>The state of the operating system. \<open>mapped\<close> knows the mappings that are shared
  with a file, by their address: it gives the offset in the file of the byte at
  which the dirty bitmap of the device begins, the byte that \<^verbatim>\<open>cow_bitmap\<close> points to.\<close>

record sys =
  names :: "string \<Rightarrow> nat option"
  inodes :: "inode list"
  fdt :: "ofd option list"
  stderr :: "diag list"
  mapped :: "int \<Rightarrow> nat option"

definition get_ofd :: "sys \<Rightarrow> int \<Rightarrow> ofd option" where
  "get_ofd s fildes =
     (if 0 \<le> fildes \<and> nat fildes < length (fdt s) then fdt s ! nat fildes else None)"

definition set_pos :: "sys \<Rightarrow> int \<Rightarrow> ofd \<Rightarrow> nat \<Rightarrow> sys" where
  "set_pos s fildes d p = s\<lparr>fdt := (fdt s)[nat fildes := Some (d\<lparr>pos := p\<rparr>)]\<rparr>"

text \<open>\<^verbatim>\<open>lseek64(fildes, offset, SEEK_SET)\<close>: \<open>-1\<close> on a bad descriptor or a negative
  offset, else the new offset.\<close>

definition lseek64_set :: "sys \<Rightarrow> int \<Rightarrow> int \<Rightarrow> int \<times> sys" where
  "lseek64_set s fildes offset =
     (case get_ofd s fildes of
        None \<Rightarrow> (- 1, s)
      | Some d \<Rightarrow>
          if offset < 0 then (- 1, s)
          else (offset, set_pos s fildes d (nat offset)))"

text \<open>\<^verbatim>\<open>lseek64(fildes, 0, SEEK_END)\<close>: the length of the file.\<close>

definition lseek64_end :: "sys \<Rightarrow> int \<Rightarrow> int \<times> sys" where
  "lseek64_end s fildes =
     (case get_ofd s fildes of
        None \<Rightarrow> (- 1, s)
      | Some d \<Rightarrow>
          if length (inodes s) \<le> ino d then (- 1, s)
          else (int (length (data (inodes s ! ino d))),
                set_pos s fildes d (length (data (inodes s ! ino d)))))"

text \<open>\<^verbatim>\<open>read(fildes, buf, count)\<close>: the return value, the bytes stored at \<^verbatim>\<open>buf\<close>, and
  the new state. At the end of the file fewer than \<open>count\<close> bytes are transferred.\<close>

definition sys_read :: "sys \<Rightarrow> int \<Rightarrow> int \<Rightarrow> int \<times> byte list \<times> sys" where
  "sys_read s fildes count =
     (case get_ofd s fildes of
        None \<Rightarrow> (- 1, [], s)
      | Some d \<Rightarrow>
          if count < 0 \<or> length (inodes s) \<le> ino d then (- 1, [], s)
          else let bytes = take (nat count) (drop (pos d) (data (inodes s ! ino d)))
               in (int (length bytes), bytes, set_pos s fildes d (pos d + length bytes)))"

text \<open>The bytes of a file after \<open>bytes\<close> were stored at offset \<open>p\<close>; a gap between the
  old end of the file and \<open>p\<close> reads as zeros.\<close>

definition store_at :: "byte list \<Rightarrow> nat \<Rightarrow> byte list \<Rightarrow> byte list" where
  "store_at old p bytes =
     (if bytes = [] then old
      else take p old @ replicate (p - length old) 0 @ bytes @ drop (p + length bytes) old)"

text \<open>\<^verbatim>\<open>write(fildes, buf, count)\<close>, where the list \<open>buf\<close> is the memory readable at
  \<^verbatim>\<open>buf\<close>: the first \<open>count\<close> bytes of it are transferred (fewer when the list is
  shorter). \<open>-1\<close> on a bad descriptor or one opened read-only.\<close>

definition sys_write :: "sys \<Rightarrow> int \<Rightarrow> byte list \<Rightarrow> int \<Rightarrow> int \<times> sys" where
  "sys_write s fildes buf count =
     (case get_ofd s fildes of
        None \<Rightarrow> (- 1, s)
      | Some d \<Rightarrow>
          if count < 0 \<or> \<not> rdwr d \<or> length (inodes s) \<le> ino d then (- 1, s)
          else let bytes = take (nat count) buf;
                   f = inodes s ! ino d
               in (int (length bytes),
                   (set_pos s fildes d (pos d + length bytes))
                     \<lparr>inodes := (inodes s)[ino d := f\<lparr>data := store_at (data f) (pos d) bytes\<rparr>]\<rparr>))"

definition eprint :: "sys \<Rightarrow> diag \<Rightarrow> sys" where
  "eprint s m = s\<lparr>stderr := stderr s @ [m]\<rparr>"

subsection \<open>The device state\<close>

text \<open>\<^verbatim>\<open>struct BlockDriverState\<close>. The array that \<^verbatim>\<open>cow_bitmap\<close> points to is kept by
  value under the pointer (\<open>None\<close> is \<^verbatim>\<open>NULL\<close>); \<^verbatim>\<open>cow_bitmap_addr\<close> is the address of
  the mapping (0 is \<^verbatim>\<open>NULL\<close>). When the mapping is shared with a file, the bits that
  \<^verbatim>\<open>bdrv_write\<close> sets are stored in the file as well (\<open>map_store\<close> below), and no
  \<^verbatim>\<open>write\<close> into the mapped part of the file is followed (\<open>writes_mapping\<close> below).
  \<^verbatim>\<open>filename\<close> holds the bytes \<^verbatim>\<open>strcpy\<close> stored, however many they are.\<close>

record BlockDriverState =
  fd :: int
  total_sectors :: int
  read_only :: int
  cow_bitmap :: "byte list option"
  cow_bitmap_addr :: int
  cow_bitmap_size :: int
  cow_fd :: int
  cow_sectors_offset :: int
  filename :: string

subsection \<open>The dirty bitmap\<close>

definition set_bit_bm :: "byte list \<Rightarrow> int \<Rightarrow> fault + byte list" where
  "set_bit_bm bitmap bitnum =
     (if bitnum < 0 \<or> length bitmap \<le> nat (bitnum div 8) then Inl Out_of_bounds
      else Inr (bitmap[nat (bitnum div 8) :=
                  bitmap ! nat (bitnum div 8) OR push_bit (nat (bitnum mod 8)) 1]))"

definition is_bit_set :: "byte list \<Rightarrow> int \<Rightarrow> fault + int" where
  "is_bit_set bitmap bitnum =
     (if bitnum < 0 \<or> length bitmap \<le> nat (bitnum div 8) then Inl Out_of_bounds
      else Inr (if bitmap ! nat (bitnum div 8) AND push_bit (nat (bitnum mod 8)) 1 \<noteq> 0
                then 1 else 0))"

text \<open>The \<^verbatim>\<open>for\<close> loop of \<^verbatim>\<open>is_changed\<close>, from the current value of \<^verbatim>\<open>*num_same\<close>.\<close>

function is_changed_loop :: "byte list \<Rightarrow> int \<Rightarrow> int \<Rightarrow> int \<Rightarrow> int \<Rightarrow> fault + int" where
  "is_changed_loop bitmap sector_num nb_sectors changed num_same =
     (if num_same < nb_sectors then
        (case is_bit_set bitmap (sector_num + num_same) of
           Inl e \<Rightarrow> Inl e
         | Inr b \<Rightarrow>
             if b \<noteq> changed then Inr num_same
             else is_changed_loop bitmap sector_num nb_sectors changed (num_same + 1))
      else Inr num_same)"
  by pat_completeness auto
termination
  by (relation "measure (\<lambda>(bitmap, sector_num, nb_sectors, changed, num_same).
        nat (nb_sectors - num_same))") auto

text \<open>\<^verbatim>\<open>is_changed\<close> returns the pair of its return value and \<^verbatim>\<open>*num_same\<close>.\<close>

definition is_changed :: "byte list option \<Rightarrow> int \<Rightarrow> int \<Rightarrow> fault + (int \<times> int)" where
  "is_changed bitmap sector_num nb_sectors =
     (case bitmap of
        None \<Rightarrow> Inr (0, nb_sectors)
      | Some bm \<Rightarrow>
          if nb_sectors = 0 then Inr (0, nb_sectors)
          else (case is_bit_set bm sector_num of
                  Inl e \<Rightarrow> Inl e
                | Inr changed \<Rightarrow>
                    (case is_changed_loop bm sector_num nb_sectors changed 1 of
                       Inl e \<Rightarrow> Inl e
                     | Inr num_same \<Rightarrow> Inr (changed, num_same))))"

declare is_changed_loop.simps [simp del]

text \<open>The run length that the scanner reports lies between the start of the loop
  counter and the requested length; \<^verbatim>\<open>bdrv_read\<close> terminates because of it.\<close>

lemma is_changed_loop_bounds:
  "is_changed_loop bitmap sector_num nb_sectors changed k = Inr n \<Longrightarrow> k \<le> nb_sectors
     \<Longrightarrow> k \<le> n \<and> n \<le> nb_sectors"
proof (induction bitmap sector_num nb_sectors changed k rule: is_changed_loop.induct)
  case (1 bitmap sector_num nb_sectors changed num_same)
  note unf = is_changed_loop.simps[of bitmap sector_num nb_sectors changed num_same]
  show ?case
  proof (cases "num_same < nb_sectors")
    case False
    with "1.prems" show ?thesis by (simp add: unf)
  next
    case True
    note lt = this
    show ?thesis
    proof (cases "is_bit_set bitmap (sector_num + num_same)")
      case (Inl e)
      with lt "1.prems" show ?thesis by (simp add: unf)
    next
      case (Inr b)
      show ?thesis
      proof (cases "b \<noteq> changed")
        case True
        with lt Inr "1.prems" show ?thesis by (simp add: unf)
      next
        case False
        with lt Inr "1.prems"
        have "is_changed_loop bitmap sector_num nb_sectors changed (num_same + 1) = Inr n"
          by (simp add: unf)
        from "1.IH"[OF lt Inr False this] lt show ?thesis by simp
      qed
    qed
  qed
qed

lemma is_changed_num_same:
  assumes "0 < nb_sectors" and "is_changed bitmap sector_num nb_sectors = Inr (changed, n)"
  shows "1 \<le> n \<and> n \<le> nb_sectors"
proof (cases bitmap)
  case None
  with assms show ?thesis by (simp add: is_changed_def)
next
  case (Some bm)
  with assms obtain c where "is_changed_loop bm sector_num nb_sectors c 1 = Inr n"
    by (auto simp: is_changed_def split: sum.splits)
  from is_changed_loop_bounds[OF this] assms(1) show ?thesis by simp
qed

subsection \<open>Reading\<close>

text \<open>\<^verbatim>\<open>bdrv_read\<close>. The list \<open>buf\<close> holds the bytes stored through \<^verbatim>\<open>buf\<close> so far: every
  round stores its bytes at the pointer and then advances the pointer past them, so
  the bytes of the rounds follow each other. The result is the return value, the bytes
  stored, and the new state of the files. The return value of \<^verbatim>\<open>lseek64\<close> is not
  looked at, as in the source. The byte count \<^verbatim>\<open>n * 512\<close> is a product in \<^verbatim>\<open>int\<close>, the
  offset and the next sector number \<^verbatim>\<open>sector_num + n\<close> are sums in \<^verbatim>\<open>int64_t\<close>; after
  a \<^verbatim>\<open>read\<close> the next sector number is in range because \<^verbatim>\<open>sector_num * 512\<close> and
  \<^verbatim>\<open>n * 512\<close> were.\<close>

function bdrv_read ::
  "sys \<Rightarrow> BlockDriverState \<Rightarrow> int \<Rightarrow> byte list \<Rightarrow> int \<Rightarrow> fault + (int \<times> byte list \<times> sys)" where
  "bdrv_read s bs sector_num buf nb_sectors =
     (if nb_sectors > 0 then
        (case is_changed (cow_bitmap bs) sector_num nb_sectors of
           Inl e \<Rightarrow> Inl e
         | Inr (changed, n) \<Rightarrow>
             (case (if changed \<noteq> 0 then (cow_fd bs, cow_sectors_offset bs) else (fd bs, 0)) of
                (fildes, offset) \<Rightarrow>
                  if fildes < 0 then
                    (if \<not> (fits_int (n * 512) \<and> fits_int64 (sector_num + n)) then
                       Inl Int_overflow
                     else bdrv_read s bs (sector_num + n) (buf @ replicate (nat (n * 512)) 0)
                            (nb_sectors - n))
                  else if \<not> (fits_int64 (sector_num * 512) \<and>
                               fits_int64 (offset + sector_num * 512)) then Inl Int_overflow
                  else
                    (case lseek64_set s fildes (offset + sector_num * 512) of
                       (retl, s1) \<Rightarrow>
                         if \<not> fits_int (n * 512) then Inl Int_overflow
                         else
                           (case sys_read s1 fildes (n * 512) of
                              (ret, bytes, s2) \<Rightarrow>
                                if ret \<noteq> n * 512 then Inr (- 1, buf @ bytes, s2)
                                else bdrv_read s2 bs (sector_num + n) (buf @ bytes)
                                       (nb_sectors - n)))))
      else Inr (0, buf, s))"
  by pat_completeness auto
termination
proof (relation "measure (\<lambda>(s, bs, sector_num, buf, nb_sectors). nat nb_sectors)", goal_cases)
  case 1
  show ?case by simp
next
  case (2 s bs sector_num buf nb_sectors x2 changed n)
  then show ?case using is_changed_num_same[of nb_sectors "cow_bitmap bs" sector_num changed n]
    by simp
next
  case (3 s bs sector_num buf nb_sectors x2 changed n)
  then show ?case using is_changed_num_same[of nb_sectors "cow_bitmap bs" sector_num changed n]
    by simp
qed

declare bdrv_read.simps [simp del]

text \<open>Sector \<open>i\<close> is not dirty on a handle: there is no bitmap, or its bit is clear.\<close>

definition clean :: "BlockDriverState \<Rightarrow> int \<Rightarrow> bool" where
  "clean bs i = (case cow_bitmap bs of None \<Rightarrow> True | Some bm \<Rightarrow> is_bit_set bm i = Inr 0)"

subsection \<open>Writing\<close>

text \<open>The \<^verbatim>\<open>for\<close> loop of \<^verbatim>\<open>bdrv_write\<close> that marks the written sectors, from the
  current value of \<^verbatim>\<open>i\<close>.\<close>

function bdrv_write_mark :: "byte list \<Rightarrow> int \<Rightarrow> int \<Rightarrow> int \<Rightarrow> fault + byte list" where
  "bdrv_write_mark bitmap sector_num nb_sectors i =
     (if i < nb_sectors then
        (case set_bit_bm bitmap (sector_num + i) of
           Inl e \<Rightarrow> Inl e
         | Inr bitmap' \<Rightarrow> bdrv_write_mark bitmap' sector_num nb_sectors (i + 1))
      else Inr bitmap)"
  by pat_completeness auto
termination
  by (relation "measure (\<lambda>(bitmap, sector_num, nb_sectors, i). nat (nb_sectors - i))") auto

declare bdrv_write_mark.simps [simp del]

text \<open>The bytes of a file after \<open>bytes\<close> replaced those from offset \<open>p\<close> on.\<close>

definition overwrite :: "byte list \<Rightarrow> nat \<Rightarrow> byte list \<Rightarrow> byte list" where
  "overwrite old p bytes = take p old @ bytes @ drop (p + length bytes) old"

text \<open>What the stores of \<^verbatim>\<open>set_bit\<close> do beyond the array: when the mapping at
  \<^verbatim>\<open>cow_bitmap_addr\<close> is shared with a file, the array is in the file too, from the
  offset that \<open>mapped\<close> gives. The file is the one \<^verbatim>\<open>cow_fd\<close> refers to: \<^verbatim>\<open>bdrv_open\<close>
  maps that descriptor, and nothing in the source changes \<^verbatim>\<open>cow_fd\<close> afterwards. An
  array that reaches past the end of the file is an access outside the file.\<close>

definition map_store :: "sys \<Rightarrow> BlockDriverState \<Rightarrow> byte list \<Rightarrow> fault + sys" where
  "map_store s bs bitmap =
     (case mapped s (cow_bitmap_addr bs) of
        None \<Rightarrow> Inr s
      | Some off \<Rightarrow>
          (case get_ofd s (cow_fd bs) of
             None \<Rightarrow> Inl Out_of_bounds
           | Some d \<Rightarrow>
               if length (inodes s) \<le> ino d \<or>
                  length (data (inodes s ! ino d)) < off + length bitmap then Inl Out_of_bounds
               else Inr (s\<lparr>inodes := (inodes s)[ino d :=
                           (inodes s ! ino d)\<lparr>data :=
                              overwrite (data (inodes s ! ino d)) off bitmap\<rparr>]\<rparr>)))"

text \<open>Whether \<^verbatim>\<open>write(fildes, buf, count)\<close> at the offset \<open>p\<close> would store into the part
  of a file that is mapped at \<^verbatim>\<open>cow_bitmap_addr\<close>: the file is the one \<^verbatim>\<open>cow_fd\<close> refers
  to, and the write begins before the end of the mapping (\<^verbatim>\<open>cow_bitmap_size\<close> bytes)
  or before the end of the array.\<close>

definition writes_mapping :: "sys \<Rightarrow> BlockDriverState \<Rightarrow> int \<Rightarrow> int \<Rightarrow> int \<Rightarrow> bool" where
  "writes_mapping s bs fildes p count =
     (case mapped s (cow_bitmap_addr bs) of
        None \<Rightarrow> False
      | Some off \<Rightarrow>
          (case get_ofd s fildes of
             None \<Rightarrow> False
           | Some d \<Rightarrow>
               (case get_ofd s (cow_fd bs) of
                  None \<Rightarrow> False
                | Some c \<Rightarrow>
                    ino d = ino c \<and> 0 < count \<and>
                    (p < cow_bitmap_size bs \<or>
                     p < int off + (case cow_bitmap bs of
                                      None \<Rightarrow> 0 | Some bitmap \<Rightarrow> int (length bitmap))))))"

text \<open>\<^verbatim>\<open>bdrv_write\<close>: the return value, the device state and the files afterwards. The list
  \<open>buf\<close> is the memory readable at \<^verbatim>\<open>buf\<close>. The offset is a sum in \<^verbatim>\<open>int64_t\<close>, the byte
  count \<^verbatim>\<open>nb_sectors * 512\<close> a product in \<^verbatim>\<open>int\<close>; the bit numbers \<^verbatim>\<open>sector_num + i\<close>
  of the loop are in range because these two were. The bits that the loop sets are
  stored in the file of a shared mapping after the loop.\<close>

definition bdrv_write ::
  "sys \<Rightarrow> BlockDriverState \<Rightarrow> int \<Rightarrow> byte list \<Rightarrow> int \<Rightarrow> fault + (int \<times> BlockDriverState \<times> sys)" where
  "bdrv_write s bs sector_num buf nb_sectors =
     (if read_only bs \<noteq> 0 then Inr (- 1, bs, s)
      else
        (case (case cow_bitmap bs of
                 Some bitmap \<Rightarrow> (cow_fd bs, cow_sectors_offset bs)
               | None \<Rightarrow> (fd bs, 0)) of
           (fildes, offset) \<Rightarrow>
             if \<not> (fits_int64 (sector_num * 512) \<and>
                     fits_int64 (offset + sector_num * 512)) then Inl Int_overflow
             else
               (case lseek64_set s fildes (offset + sector_num * 512) of
                  (retl, s1) \<Rightarrow>
                    if retl = - 1 then Inr (- 1, bs, s1)
                    else if \<not> fits_int (nb_sectors * 512) then Inl Int_overflow
                    else if writes_mapping s1 bs fildes (offset + sector_num * 512)
                              (nb_sectors * 512) then Inl Write_in_mapping
                    else
                      (case sys_write s1 fildes buf (nb_sectors * 512) of
                         (ret, s2) \<Rightarrow>
                           if ret \<noteq> nb_sectors * 512 then Inr (- 1, bs, s2)
                           else
                             (case cow_bitmap bs of
                                Some bitmap \<Rightarrow>
                                  (case bdrv_write_mark bitmap sector_num nb_sectors 0 of
                                     Inl e \<Rightarrow> Inl e
                                   | Inr bitmap' \<Rightarrow>
                                       (case map_store s2 bs bitmap' of
                                          Inl e \<Rightarrow> Inl e
                                        | Inr s3 \<Rightarrow>
                                            Inr (0, bs\<lparr>cow_bitmap := Some bitmap'\<rparr>, s3)))
                              | None \<Rightarrow> Inr (0, bs, s2))))))"

lemma bdrv_write_total_sectors:
  "bdrv_write s bs sector_num buf nb_sectors = Inr (r, bs', s') \<Longrightarrow>
     total_sectors bs' = total_sectors bs"
  by (auto simp: bdrv_write_def split: if_splits prod.splits option.splits sum.splits)

subsection \<open>Committing\<close>

text \<open>The \<^verbatim>\<open>for\<close> loop of \<^verbatim>\<open>bdrv_commit\<close>, from the current value of \<^verbatim>\<open>i\<close>. The local
  variable \<^verbatim>\<open>cow_bitmap\<close> keeps the array while the field of the device state is
  \<^verbatim>\<open>NULL\<close>; the array \<^verbatim>\<open>sector\<close> receives the bytes that \<^verbatim>\<open>bdrv_read\<close> stores.\<close>

function bdrv_commit_loop ::
  "sys \<Rightarrow> BlockDriverState \<Rightarrow> byte list \<Rightarrow> int \<Rightarrow> fault + (int \<times> BlockDriverState \<times> sys)" where
  "bdrv_commit_loop s bs bitmap i =
     (if i < total_sectors bs then
        (case is_bit_set bitmap i of
           Inl e \<Rightarrow> Inl e
         | Inr b \<Rightarrow>
             if b \<noteq> 0 then
               (case bdrv_read s bs i [] 1 of
                  Inl e \<Rightarrow> Inl e
                | Inr (r, sector, s1) \<Rightarrow>
                    if r \<noteq> 0 then
                      Inr (- 1, bs,
                           eprint s1 (Fprintf ''Error reading sector %lli: aborting commit\<newline>'' [LL i]))
                    else
                      (case bdrv_write s1 (bs\<lparr>cow_bitmap := None\<rparr>) i sector 1 of
                         Inl e \<Rightarrow> Inl e
                       | Inr (w, bs1, s2) \<Rightarrow>
                           if w \<noteq> 0 then
                             Inr (- 1, bs1\<lparr>cow_bitmap := Some bitmap\<rparr>,
                                  eprint s2 (Fprintf ''Error writing sector %lli: aborting commit\<newline>'' [LL i]))
                           else bdrv_commit_loop s2 (bs1\<lparr>cow_bitmap := Some bitmap\<rparr>) bitmap (i + 1)))
             else bdrv_commit_loop s bs bitmap (i + 1))
      else Inr (0, bs, eprint s (Fprintf ''Committed snapshot to %s\<newline>'' [Str (filename bs)])))"
  by pat_completeness auto
termination
proof (relation "measure (\<lambda>(s, bs, bitmap, i). nat (total_sectors bs - i))", goal_cases)
  case 1
  show ?case by simp
next
  case (2 s bs bitmap i b x2 r y sector s1 x2a w ya bs1 s2)
  then show ?case
    using bdrv_write_total_sectors[of s1 "bs\<lparr>cow_bitmap := None\<rparr>" i sector 1 w bs1 s2]
    by simp
next
  case 3
  then show ?case by simp
qed

declare bdrv_commit_loop.simps [simp del]

definition bdrv_commit :: "sys \<Rightarrow> BlockDriverState \<Rightarrow> fault + (int \<times> BlockDriverState \<times> sys)" where
  "bdrv_commit s bs =
     (case cow_bitmap bs of
        None \<Rightarrow> Inr (0, bs, eprint s (Fprintf ''Already committed to %s\<newline>'' [Str (filename bs)]))
      | Some bitmap \<Rightarrow>
          if read_only bs \<noteq> 0 then
            Inr (- 1, bs, eprint s (Fprintf ''Can't commit to %s: read-only\<newline>'' [Str (filename bs)]))
          else bdrv_commit_loop s bs bitmap 0)"

definition bdrv_get_geometry :: "BlockDriverState \<Rightarrow> int" where
  "bdrv_get_geometry bs = total_sectors bs"

subsection \<open>Opening and closing\<close>

text \<open>More of the operating system: \<^verbatim>\<open>open\<close> hands out the lowest free descriptor,
  \<^verbatim>\<open>close\<close> frees it, \<^verbatim>\<open>stat\<close> reports the modification time of the file a path names.
  Every file that exists may be read; one that is not \<open>writable\<close> cannot be opened
  \<^verbatim>\<open>O_RDWR\<close>.\<close>

fun first_free :: "ofd option list \<Rightarrow> nat" where
  "first_free [] = 0"
| "first_free (None # t) = 0"
| "first_free (Some d # t) = Suc (first_free t)"

definition install :: "ofd option list \<Rightarrow> nat \<Rightarrow> ofd \<Rightarrow> ofd option list" where
  "install t k d = (if k < length t then t[k := Some d] else t @ [Some d])"

definition sys_open :: "sys \<Rightarrow> string \<Rightarrow> bool \<Rightarrow> int \<times> sys" where
  "sys_open s path rw =
     (case names s path of
        None \<Rightarrow> (- 1, s)
      | Some i \<Rightarrow>
          if length (inodes s) \<le> i \<or> (rw \<and> \<not> writable (inodes s ! i)) then (- 1, s)
          else (int (first_free (fdt s)),
                s\<lparr>fdt := install (fdt s) (first_free (fdt s)) \<lparr>ino = i, pos = 0, rdwr = rw\<rparr>\<rparr>))"

definition sys_close :: "sys \<Rightarrow> int \<Rightarrow> sys" where
  "sys_close s fildes =
     (case get_ofd s fildes of
        None \<Rightarrow> s
      | Some d \<Rightarrow> s\<lparr>fdt := (fdt s)[nat fildes := None]\<rparr>)"

definition sys_stat :: "sys \<Rightarrow> string \<Rightarrow> 32 word option" where
  "sys_stat s path =
     (case names s path of
        None \<Rightarrow> None
      | Some i \<Rightarrow> if i < length (inodes s) then Some (st_mtime (inodes s ! i)) else None)"

definition sys_unlink :: "sys \<Rightarrow> string \<Rightarrow> sys" where
  "sys_unlink s path = s\<lparr>names := (names s)(path := None)\<rparr>"

text \<open>What the program cannot predict of its environment during one \<^verbatim>\<open>bdrv_open\<close>:
  the block \<^verbatim>\<open>malloc\<close> returns (\<open>None\<close> is \<^verbatim>\<open>NULL\<close>; the contents of a fresh block are
  indeterminate, so they are given), the address \<^verbatim>\<open>mmap\<close> returns (\<open>MAP_FAILED\<close> when
  it refuses), and the name \<^verbatim>\<open>mkstemp\<close> chooses for the temporary file (\<open>None\<close> when it
  fails).\<close>

record env =
  malloc_bs :: "BlockDriverState option"
  mmap_ret :: int
  mkstemp_name :: "string option"

definition MAP_FAILED :: int where
  "MAP_FAILED = - 1"

text \<open>\<^verbatim>\<open>mkstemp(template)\<close>: the descriptor of a new empty file, the name stored in
  \<^verbatim>\<open>template\<close>, and the new state.\<close>

definition sys_mkstemp :: "env \<Rightarrow> sys \<Rightarrow> string \<Rightarrow> int \<times> string \<times> sys" where
  "sys_mkstemp e s template =
     (case mkstemp_name e of
        None \<Rightarrow> (- 1, template, s)
      | Some nm \<Rightarrow>
          if names s nm \<noteq> None then (- 1, template, s)
          else (case sys_open
                       (s\<lparr>names := (names s)(nm \<mapsto> length (inodes s)),
                          inodes := inodes s @ [\<lparr>data = [], st_mtime = 0, writable = True\<rparr>]\<rparr>)
                       nm True of
                  (fildes, s') \<Rightarrow> (fildes, nm, s')))"

text \<open>\<^verbatim>\<open>mmap(addr, len, PROT_READ | PROT_WRITE, MAP_SHARED, fildes, 0)\<close>: the address and
  the bytes of the mapping, which are the first \<open>len\<close> bytes of the file. The mapping
  is refused for a length that is not positive and for a descriptor that is not open
  for writing. Where the file is shorter than \<open>len\<close> the array ends with the file: an
  access past the end of the file is one outside the array.\<close>

definition mmap_shared :: "env \<Rightarrow> sys \<Rightarrow> int \<Rightarrow> int \<Rightarrow> int \<times> byte list" where
  "mmap_shared e s len fildes =
     (case get_ofd s fildes of
        None \<Rightarrow> (MAP_FAILED, [])
      | Some d \<Rightarrow>
          if len \<le> 0 \<or> \<not> rdwr d \<or> length (inodes s) \<le> ino d then (MAP_FAILED, [])
          else (mmap_ret e, take (nat len) (data (inodes s ! ino d))))"

text \<open>\<^verbatim>\<open>mmap(addr, len, PROT_READ | PROT_WRITE, MAP_PRIVATE | MAP_ANONYMOUS, -1, 0)\<close>:
  \<open>len\<close> zero bytes.\<close>

definition mmap_anon :: "env \<Rightarrow> int \<Rightarrow> int \<times> byte list" where
  "mmap_anon e len =
     (if len \<le> 0 then (MAP_FAILED, []) else (mmap_ret e, replicate (nat len) 0))"

text \<open>\<^verbatim>\<open>munmap\<close>: nothing is shared at the address any more.\<close>

definition munmap :: "sys \<Rightarrow> int \<Rightarrow> int \<Rightarrow> sys" where
  "munmap s addr len = s\<lparr>mapped := (mapped s)(addr := None)\<rparr>"

text \<open>The header \<^verbatim>\<open>vl.h\<close> is not among the sources. What \<^verbatim>\<open>block.c\<close> takes from it is a
  parameter of the model: the constants \<^verbatim>\<open>COW_MAGIC\<close> and \<^verbatim>\<open>COW_VERSION\<close>, whether
  \<^verbatim>\<open>WORDS_BIGENDIAN\<close> is defined, and \<^verbatim>\<open>struct cow_header_v2\<close> with its size and its
  layout (\<open>load_cow_header\<close> gives the fields, each as the host reads it, of a header
  whose bytes were read from a file). The field \<^verbatim>\<open>size\<close> is called \<open>size_field\<close>, and
  \<^verbatim>\<open>backing_file\<close> is the string up to its first zero byte. The address hint
  \<^verbatim>\<open>get_mmap_addr\<close> does not appear: the address of a mapping is the environment's.\<close>

record cow_header_v2 =
  magic :: "32 word"
  version :: "32 word"
  backing_file :: string
  mtime :: "32 word"
  size_field :: "64 word"

record vl_h =
  COW_MAGIC :: "32 word"
  COW_VERSION :: "32 word"
  WORDS_BIGENDIAN :: bool
  sizeof_cow_header :: nat
  load_cow_header :: "byte list \<Rightarrow> cow_header_v2"

definition bswap32 :: "32 word \<Rightarrow> 32 word" where
  "bswap32 x =
     push_bit 24 (x AND 0xFF) OR push_bit 8 (x AND 0xFF00) OR
     (drop_bit 8 x AND 0xFF00) OR drop_bit 24 x"

definition bswap64 :: "64 word \<Rightarrow> 64 word" where
  "bswap64 x =
     push_bit 32 (ucast (bswap32 (ucast x))) OR ucast (bswap32 (ucast (drop_bit 32 x)))"

definition htonl :: "vl_h \<Rightarrow> 32 word \<Rightarrow> 32 word" where
  "htonl cfg x = (if WORDS_BIGENDIAN cfg then x else bswap32 x)"

text \<open>Division of C: the quotient is truncated towards zero.\<close>

definition c_div :: "int \<Rightarrow> int \<Rightarrow> int" where
  "c_div a b = sgn a * sgn b * (\<bar>a\<bar> div \<bar>b\<bar>)"

definition bdrv_close :: "sys \<Rightarrow> BlockDriverState \<Rightarrow> sys" where
  "bdrv_close s bs =
     (let s1 = (if cow_bitmap_addr bs \<noteq> 0
                then munmap s (cow_bitmap_addr bs) (cow_bitmap_size bs) else s);
          s2 = (if cow_fd bs \<ge> 0 then sys_close s1 (cow_fd bs) else s1)
      in if fd bs \<ge> 0 then sys_close s2 (fd bs) else s2)"

text \<open>The label \<^verbatim>\<open>fail\<close> of \<^verbatim>\<open>bdrv_open\<close>.\<close>

definition bdrv_open_fail :: "sys \<Rightarrow> BlockDriverState \<Rightarrow> BlockDriverState option \<times> sys" where
  "bdrv_open_fail s bs = (None, bdrv_close s bs)"

text \<open>\<^verbatim>\<open>bdrv_open\<close> from \<^verbatim>\<open>if (snapshot)\<close> to \<^verbatim>\<open>return bs\<close>. The anonymous mapping is
  shared with no file.\<close>

definition bdrv_open_snapshot ::
  "env \<Rightarrow> sys \<Rightarrow> BlockDriverState \<Rightarrow> int \<Rightarrow> BlockDriverState option \<times> sys" where
  "bdrv_open_snapshot e s bs snapshot =
     (if snapshot \<noteq> 0 then
        (case sys_mkstemp e s ''/tmp/vl.XXXXXX'' of
           (cow_fd', template, s1) \<Rightarrow>
             if cow_fd' < 0 then bdrv_open_fail s1 bs
             else
               (let bs1 = bs\<lparr>cow_fd := cow_fd'\<rparr>;
                    s2 = sys_unlink s1 template;
                    bs2 = bs1\<lparr>cow_bitmap_size := to_int (drop_bit 3 (total_sectors bs1 + 7))\<rparr>
                in case mmap_anon e (cow_bitmap_size bs2) of
                     (addr, bytes) \<Rightarrow>
                       if addr = MAP_FAILED then bdrv_open_fail s2 (bs2\<lparr>cow_bitmap_addr := addr\<rparr>)
                       else (Some (bs2\<lparr>cow_bitmap_addr := addr, cow_bitmap := Some bytes,
                                        cow_sectors_offset := 0\<rparr>),
                             s2\<lparr>mapped := (mapped s2)(addr := None)\<rparr>)))
      else (Some bs, s))"

text \<open>\<^verbatim>\<open>bdrv_open\<close> from the comment \<^verbatim>\<open>mmap the bitmap\<close> on, in the branch of a COW
  image; \<^verbatim>\<open>snapshot\<close> is set to 0 there. The mapping is shared with the file, and
  \<^verbatim>\<open>cow_bitmap\<close> points \<^verbatim>\<open>sizeof(cow_header)\<close> bytes into it. The sum that gives
  \<^verbatim>\<open>cow_sectors_offset\<close> is one in \<^verbatim>\<open>int\<close>; it is reduced to 32 bits like the field.\<close>

definition bdrv_open_cow_map ::
  "vl_h \<Rightarrow> env \<Rightarrow> sys \<Rightarrow> BlockDriverState \<Rightarrow> BlockDriverState option \<times> sys" where
  "bdrv_open_cow_map cfg e s bs =
     (let bs1 = bs\<lparr>cow_bitmap_size :=
                    to_int (drop_bit 3 (total_sectors bs + 7) + int (sizeof_cow_header cfg))\<rparr>
      in case mmap_shared e s (cow_bitmap_size bs1) (cow_fd bs1) of
           (addr, bytes) \<Rightarrow>
             if addr = MAP_FAILED then bdrv_open_fail s (bs1\<lparr>cow_bitmap_addr := addr\<rparr>)
             else bdrv_open_snapshot e
                    (s\<lparr>mapped := (mapped s)(addr \<mapsto> sizeof_cow_header cfg)\<rparr>)
                    (bs1\<lparr>cow_bitmap_addr := addr,
                         cow_bitmap := Some (drop (sizeof_cow_header cfg) bytes),
                         cow_sectors_offset := to_int (cow_bitmap_size bs1 + 511) AND NOT 511\<rparr>) 0)"

text \<open>\<^verbatim>\<open>bdrv_open\<close> from \<^verbatim>\<open>bs->fd = fd\<close> on, with the descriptor \<open>fildes\<close> of the image.
  The comparison of \<^verbatim>\<open>st.st_mtime\<close> with \<^verbatim>\<open>htonl(cow_header.mtime)\<close> is one of 32-bit
  values.\<close>

definition bdrv_open_image ::
  "vl_h \<Rightarrow> env \<Rightarrow> sys \<Rightarrow> BlockDriverState \<Rightarrow> int \<Rightarrow> string \<Rightarrow> int \<Rightarrow>
     BlockDriverState option \<times> sys" where
  "bdrv_open_image cfg e s bs0 fildes path snapshot =
     (let bs = bs0\<lparr>fd := fildes\<rparr>
      in case sys_read s fildes (int (sizeof_cow_header cfg)) of
           (ret, raw, s1) \<Rightarrow>
             if ret \<noteq> int (sizeof_cow_header cfg) then
               bdrv_open_fail
                 (eprint s1 (Fprintf ''%s: could not read header\<newline>'' [Str path])) bs
             else
               (let cow_header = load_cow_header cfg raw
                in if magic cow_header = htonl cfg (COW_MAGIC cfg) \<and>
                      version cow_header = htonl cfg (COW_VERSION cfg) then
                     (let sz = sint (if WORDS_BIGENDIAN cfg then size_field cow_header
                                       else bswap64 (size_field cow_header));
                          bs1 = bs\<lparr>total_sectors := c_div sz 512, cow_fd := fildes, fd := - 1\<rparr>
                      in if backing_file cow_header \<noteq> [] then
                           (case sys_stat s1 (backing_file cow_header) of
                              None \<Rightarrow>
                                bdrv_open_fail
                                  (eprint s1
                                     (Fprintf ''%s: could not find original disk image '%s'\<newline>''
                                        [Str path, Str (backing_file cow_header)])) bs1
                            | Some st \<Rightarrow>
                                if st \<noteq> htonl cfg (mtime cow_header) then
                                  bdrv_open_fail
                                    (eprint s1
                                       (Fprintf ''%s: original raw disk image '%s' does not match saved timestamp\<newline>''
                                          [Str path, Str (backing_file cow_header)])) bs1
                                else
                                  (case sys_open s1 (backing_file cow_header) False of
                                     (fd2, s2) \<Rightarrow>
                                       if fd2 < 0 then bdrv_open_fail s2 bs1
                                       else bdrv_open_cow_map cfg e s2 (bs1\<lparr>fd := fd2\<rparr>)))
                         else bdrv_open_cow_map cfg e s1 bs1)
                   else
                     (case lseek64_end s1 fildes of
                        (sz, s2) \<Rightarrow>
                          bdrv_open_snapshot e s2
                            (bs\<lparr>total_sectors := c_div sz 512, fd := fildes\<rparr>) snapshot)))"

text \<open>\<^verbatim>\<open>bdrv_open\<close>: the handle (\<open>None\<close> is \<^verbatim>\<open>NULL\<close>) and the new state of the files.
  \<^verbatim>\<open>strcpy\<close> stores every byte of \<open>path\<close> in the field \<^verbatim>\<open>filename\<close>; the source compares
  the length of \<open>path\<close> with nothing.\<close>

definition bdrv_open ::
  "vl_h \<Rightarrow> env \<Rightarrow> sys \<Rightarrow> string \<Rightarrow> int \<Rightarrow> BlockDriverState option \<times> sys" where
  "bdrv_open cfg e s path snapshot =
     (case malloc_bs e of
        None \<Rightarrow> (None, s)
      | Some blk \<Rightarrow>
          (let bs = blk\<lparr>read_only := 0, fd := - 1, cow_fd := - 1, cow_bitmap := None,
                       filename := path\<rparr>
           in case sys_open s path True of
                (fd1, s1) \<Rightarrow>
                  if fd1 < 0 then
                    (case sys_open s1 path False of
                       (fd2, s2) \<Rightarrow>
                         if fd2 < 0 then bdrv_open_fail (eprint s2 (Perror path)) bs
                         else bdrv_open_image cfg e s2
                                (if snapshot = 0 then bs\<lparr>read_only := 1\<rparr> else bs)
                                fd2 path snapshot)
                  else bdrv_open_image cfg e s1 bs fd1 path snapshot))"

section \<open>Example states\<close>

text \<open>A raw image that can only be read, opened without a snapshot.\<close>

definition ro_sys :: sys where
  "ro_sys = \<lparr>names = (\<lambda>p. if p = ''disk.img'' then Some 0 else None),
            inodes = [\<lparr>data = replicate 1024 0x11, st_mtime = 7, writable = False\<rparr>],
            fdt = [Some \<lparr>ino = 0, pos = 0, rdwr = False\<rparr>],
            stderr = [], mapped = Map.empty\<rparr>"

definition ro_bs :: BlockDriverState where
  "ro_bs = \<lparr>fd = 0, total_sectors = 2, read_only = 1, cow_bitmap = None, cow_bitmap_addr = 0,
           cow_bitmap_size = 0, cow_fd = - 1, cow_sectors_offset = 0, filename = ''disk.img''\<rparr>"

text \<open>A writable raw image of two sectors with no descriptor open, and the same image
  opened with a snapshot: descriptor 0 is the image, descriptor 1 the temporary
  file, which has no name any more, and no sector is dirty.\<close>

definition base_sys :: sys where
  "base_sys = \<lparr>names = (\<lambda>p. if p = ''disk.img'' then Some 0 else None),
              inodes = [\<lparr>data = replicate 1024 0x11, st_mtime = 7, writable = True\<rparr>],
              fdt = [], stderr = [], mapped = Map.empty\<rparr>"

definition snap_sys :: sys where
  "snap_sys = \<lparr>names = (\<lambda>p. if p = ''disk.img'' then Some 0 else None),
              inodes = [\<lparr>data = replicate 1024 0x11, st_mtime = 7, writable = True\<rparr>,
                        \<lparr>data = [], st_mtime = 0, writable = True\<rparr>],
              fdt = [Some \<lparr>ino = 0, pos = 1024, rdwr = True\<rparr>, Some \<lparr>ino = 1, pos = 0, rdwr = True\<rparr>],
              stderr = [], mapped = Map.empty\<rparr>"

definition snap_bs :: BlockDriverState where
  "snap_bs = \<lparr>fd = 0, total_sectors = 2, read_only = 0, cow_bitmap = Some [0],
             cow_bitmap_addr = 4096, cow_bitmap_size = 1, cow_fd = 1, cow_sectors_offset = 0,
             filename = ''disk.img''\<rparr>"

text \<open>The same device after sector 1 was written with bytes \<open>0xFF\<close>.\<close>

definition snap_bs_1 :: BlockDriverState where
  "snap_bs_1 = snap_bs\<lparr>cow_bitmap := Some [2]\<rparr>"

definition snap_sys_1 :: sys where
  "snap_sys_1 = snap_sys
     \<lparr>inodes := [\<lparr>data = replicate 1024 0x11, st_mtime = 7, writable = True\<rparr>,
                 \<lparr>data = replicate 512 0 @ replicate 512 0xFF, st_mtime = 0, writable = True\<rparr>],
      fdt := [Some \<lparr>ino = 0, pos = 1024, rdwr = True\<rparr>, Some \<lparr>ino = 1, pos = 1024, rdwr = True\<rparr>]\<rparr>"

text \<open>The same device after a commit, and after sector 1 was then written with bytes
  \<open>0xAA\<close>.\<close>

definition snap_sys_2 :: sys where
  "snap_sys_2 = snap_sys
     \<lparr>inodes := [\<lparr>data = replicate 512 0x11 @ replicate 512 0xFF, st_mtime = 7, writable = True\<rparr>,
                 \<lparr>data = replicate 512 0 @ replicate 512 0xFF, st_mtime = 0, writable = True\<rparr>],
      fdt := [Some \<lparr>ino = 0, pos = 1024, rdwr = True\<rparr>, Some \<lparr>ino = 1, pos = 1024, rdwr = True\<rparr>],
      stderr := [Fprintf ''Committed snapshot to %s\<newline>'' [Str ''disk.img'']]\<rparr>"

definition snap_sys_3 :: sys where
  "snap_sys_3 = snap_sys_2
     \<lparr>inodes := [\<lparr>data = replicate 512 0x11 @ replicate 512 0xFF, st_mtime = 7, writable = True\<rparr>,
                 \<lparr>data = replicate 512 0 @ replicate 512 0xAA, st_mtime = 0, writable = True\<rparr>]\<rparr>"

text \<open>An instance of the parameters that stand for \<^verbatim>\<open>vl.h\<close>, for a host that stores the
  low byte first: a header of 28 bytes with \<^verbatim>\<open>magic\<close>, \<^verbatim>\<open>version\<close>, eight bytes of
  \<^verbatim>\<open>backing_file\<close>, \<^verbatim>\<open>mtime\<close> and \<^verbatim>\<open>size\<close> in this order. With it an environment in
  which \<^verbatim>\<open>malloc\<close>, \<^verbatim>\<open>mmap\<close> and \<^verbatim>\<open>mkstemp\<close> succeed.\<close>

definition le_word :: "byte list \<Rightarrow> 'a::len word" where
  "le_word bytes = foldr (\<lambda>b w. ucast b OR push_bit 8 w) bytes 0"

definition example_load :: "byte list \<Rightarrow> cow_header_v2" where
  "example_load raw =
     \<lparr>magic = le_word (take 4 raw),
      version = le_word (take 4 (drop 4 raw)),
      backing_file = map (\<lambda>b. char_of (unat b)) (takeWhile (\<lambda>b. b \<noteq> 0) (take 8 (drop 8 raw))),
      mtime = le_word (take 4 (drop 16 raw)),
      size_field = le_word (take 8 (drop 20 raw))\<rparr>"

definition example_vl_h :: vl_h where
  "example_vl_h = \<lparr>COW_MAGIC = 0x4f4f4f4d, COW_VERSION = 2, WORDS_BIGENDIAN = False,
                   sizeof_cow_header = 28, load_cow_header = example_load\<rparr>"

definition blk0 :: BlockDriverState where
  "blk0 = \<lparr>fd = 0, total_sectors = 0, read_only = 0, cow_bitmap = None, cow_bitmap_addr = 0,
           cow_bitmap_size = 0, cow_fd = 0, cow_sectors_offset = 0, filename = []\<rparr>"

definition example_env :: env where
  "example_env = \<lparr>malloc_bs = Some blk0, mmap_ret = 4096, mkstemp_name = Some ''/tmp/vl.a1b2c3''\<rparr>"

text \<open>A raw image of two sectors under a path of 1028 characters, no component of
  which is longer than eight.\<close>

definition long_path :: string where
  "long_path = concat (replicate 255 ''dir/'') @ ''disk.img''"

definition long_sys :: sys where
  "long_sys = \<lparr>names = (\<lambda>p. if p = long_path then Some 0 else None),
              inodes = [\<lparr>data = replicate 1024 0x11, st_mtime = 7, writable = True\<rparr>],
              fdt = [], stderr = [], mapped = Map.empty\<rparr>"

text \<open>A COW image \<^verbatim>\<open>disk.cow\<close> of two sectors whose header names the backing file
  \<^verbatim>\<open>base\<close> with the modification time 7, while \<^verbatim>\<open>base\<close> now has the modification
  time 8.\<close>

definition stale_header :: "byte list" where
  "stale_header = [0x4f, 0x4f, 0x4f, 0x4d,  0, 0, 0, 2,
                   0x62, 0x61, 0x73, 0x65, 0, 0, 0, 0,
                   0, 0, 0, 7,
                   0, 0, 0, 0, 0, 0, 4, 0]"

definition stale_sys :: sys where
  "stale_sys = \<lparr>names = (\<lambda>p. if p = ''disk.cow'' then Some 0
                              else if p = ''base'' then Some 1 else None),
               inodes = [\<lparr>data = stale_header @ replicate 484 0, st_mtime = 9, writable = True\<rparr>,
                         \<lparr>data = replicate 1024 0x11, st_mtime = 8, writable = True\<rparr>],
               fdt = [], stderr = [], mapped = Map.empty\<rparr>"

definition stale_hdr :: cow_header_v2 where
  "stale_hdr = \<lparr>magic = 0x4d4f4f4f, version = 0x02000000, backing_file = ''base'',
               mtime = 0x07000000, size_field = 0x0004000000000000\<rparr>"

text \<open>An open COW image of two sectors without a backing file: the header and the
  bitmap fill the first 512 bytes of the file, sector 1 is dirty and holds bytes
  \<open>0xFF\<close>. The bitmap is mapped from offset 28 of the file.\<close>

definition plain_header :: "byte list" where
  "plain_header = [0x4f, 0x4f, 0x4f, 0x4d,  0, 0, 0, 2,
                   0, 0, 0, 0, 0, 0, 0, 0,
                   0, 0, 0, 0,
                   0, 0, 0, 0, 0, 0, 4, 0]"

definition plain_sys :: sys where
  "plain_sys = \<lparr>names = (\<lambda>p. if p = ''disk.cow'' then Some 0 else None),
               inodes = [\<lparr>data = plain_header @ [2] @ replicate 483 0 @ replicate 512 0 @
                                  replicate 512 0xFF,
                          st_mtime = 9, writable = True\<rparr>],
               fdt = [Some \<lparr>ino = 0, pos = 28, rdwr = True\<rparr>], stderr = [],
               mapped = [4096 \<mapsto> 28]\<rparr>"

definition plain_bs :: BlockDriverState where
  "plain_bs = \<lparr>fd = - 1, total_sectors = 2, read_only = 0, cow_bitmap = Some [2],
              cow_bitmap_addr = 4096, cow_bitmap_size = 29, cow_fd = 0, cow_sectors_offset = 512,
              filename = ''disk.cow''\<rparr>"

text \<open>An open COW image \<^verbatim>\<open>disk.cow\<close> of two sectors over the backing file \<^verbatim>\<open>base\<close>,
  whose modification time 8 is the one in the header: descriptor 0 is the overlay,
  descriptor 1 the backing file, the bitmap is mapped from offset 28 of the overlay
  and no sector is dirty. Then the same device after sector 1 was written with bytes
  \<open>0xFF\<close>.\<close>

definition based_header :: "byte list" where
  "based_header = [0x4f, 0x4f, 0x4f, 0x4d,  0, 0, 0, 2,
                   0x62, 0x61, 0x73, 0x65, 0, 0, 0, 0,
                   0, 0, 0, 8,
                   0, 0, 0, 0, 0, 0, 4, 0]"

definition based_sys :: sys where
  "based_sys = \<lparr>names = (\<lambda>p. if p = ''disk.cow'' then Some 0
                              else if p = ''base'' then Some 1 else None),
               inodes = [\<lparr>data = based_header @ [0] @ replicate 483 0,
                          st_mtime = 9, writable = True\<rparr>,
                         \<lparr>data = replicate 1024 0x11, st_mtime = 8, writable = True\<rparr>],
               fdt = [Some \<lparr>ino = 0, pos = 28, rdwr = True\<rparr>,
                      Some \<lparr>ino = 1, pos = 0, rdwr = False\<rparr>],
               stderr = [], mapped = [4096 \<mapsto> 28]\<rparr>"

definition based_bs :: BlockDriverState where
  "based_bs = \<lparr>fd = 1, total_sectors = 2, read_only = 0, cow_bitmap = Some [0],
              cow_bitmap_addr = 4096, cow_bitmap_size = 29, cow_fd = 0, cow_sectors_offset = 512,
              filename = ''disk.cow''\<rparr>"

definition based_sys_1 :: sys where
  "based_sys_1 = based_sys
     \<lparr>inodes := [\<lparr>data = based_header @ [2] @ replicate 483 0 @ replicate 512 0 @
                           replicate 512 0xFF,
                   st_mtime = 9, writable = True\<rparr>,
                 \<lparr>data = replicate 1024 0x11, st_mtime = 8, writable = True\<rparr>],
      fdt := [Some \<lparr>ino = 0, pos = 1536, rdwr = True\<rparr>,
              Some \<lparr>ino = 1, pos = 0, rdwr = False\<rparr>]\<rparr>"

text \<open>An open COW image \<^verbatim>\<open>a.cow\<close> of two sectors whose header names \<^verbatim>\<open>a.cow\<close> itself
  as the backing file, with the modification time 9 that the file has. Descriptor 0
  is the overlay and descriptor 1 the backing file, both on the one file; every
  byte of the two sectors is \<open>0xEE\<close> and no sector is dirty. Then the same device after
  sector 0 was written with bytes \<open>0xAA\<close>.\<close>

definition self_header :: "byte list" where
  "self_header = [0x4f, 0x4f, 0x4f, 0x4d,  0, 0, 0, 2,
                  0x61, 0x2e, 0x63, 0x6f, 0x77, 0, 0, 0,
                  0, 0, 0, 9,
                  0, 0, 0, 0, 0, 0, 4, 0]"

definition self_sys :: sys where
  "self_sys = \<lparr>names = (\<lambda>p. if p = ''a.cow'' then Some 0 else None),
              inodes = [\<lparr>data = self_header @ [0] @ replicate 483 0 @ replicate 512 0xEE @
                                 replicate 512 0xEE,
                         st_mtime = 9, writable = True\<rparr>],
              fdt = [Some \<lparr>ino = 0, pos = 28, rdwr = True\<rparr>,
                     Some \<lparr>ino = 0, pos = 0, rdwr = False\<rparr>],
              stderr = [], mapped = [4096 \<mapsto> 28]\<rparr>"

definition self_bs :: BlockDriverState where
  "self_bs = \<lparr>fd = 1, total_sectors = 2, read_only = 0, cow_bitmap = Some [0],
             cow_bitmap_addr = 4096, cow_bitmap_size = 29, cow_fd = 0, cow_sectors_offset = 512,
             filename = ''a.cow''\<rparr>"

definition self_sys_1 :: sys where
  "self_sys_1 = self_sys
     \<lparr>inodes := [\<lparr>data = self_header @ [1] @ replicate 483 0 @ replicate 512 0xAA @
                           replicate 512 0xEE,
                   st_mtime = 9, writable = True\<rparr>],
      fdt := [Some \<lparr>ino = 0, pos = 1024, rdwr = True\<rparr>,
              Some \<lparr>ino = 0, pos = 0, rdwr = False\<rparr>]\<rparr>"

text \<open>A new COW image \<^verbatim>\<open>blank.cow\<close> for a disk of 4 GiB (8388608 sectors), without a
  backing file: the header, a bitmap of 1048576 zero bytes, and zeros up to the
  offset 1049088 at which the sectors begin. No sector has been written.\<close>

definition blank_header :: "byte list" where
  "blank_header = [0x4f, 0x4f, 0x4f, 0x4d,  0, 0, 0, 2,
                   0, 0, 0, 0, 0, 0, 0, 0,
                   0, 0, 0, 0,
                   0, 0, 0, 1, 0, 0, 0, 0]"

definition blank_sys :: sys where
  "blank_sys = \<lparr>names = (\<lambda>p. if p = ''blank.cow'' then Some 0 else None),
               inodes = [\<lparr>data = blank_header @ replicate 1048576 0 @ replicate 484 0,
                          st_mtime = 9, writable = True\<rparr>],
               fdt = [Some \<lparr>ino = 0, pos = 28, rdwr = True\<rparr>], stderr = [],
               mapped = [4096 \<mapsto> 28]\<rparr>"

definition blank_bs :: BlockDriverState where
  "blank_bs = \<lparr>fd = - 1, total_sectors = 8388608, read_only = 0,
              cow_bitmap = Some (replicate 1048576 0), cow_bitmap_addr = 4096,
              cow_bitmap_size = 1048604, cow_fd = 0, cow_sectors_offset = 1049088,
              filename = ''blank.cow''\<rparr>"

section \<open>Lemmas\<close>

subsection \<open>Bits of the bitmap\<close>

lemma test_bit_byte:
  "((b :: byte) AND push_bit k 1 \<noteq> 0) = bit b k"
  by (simp add: bit_iff_and_push_bit_not_eq_0)

lemma is_bit_set_in:
  "0 \<le> i \<Longrightarrow> nat (i div 8) < length bm \<Longrightarrow>
     is_bit_set bm i = Inr (if bit (bm ! nat (i div 8)) (nat (i mod 8)) then 1 else 0)"
  unfolding is_bit_set_def test_bit_byte by simp

lemma is_bit_set_Inr:
  "is_bit_set bm i = Inr c \<Longrightarrow> 0 \<le> i \<and> nat (i div 8) < length bm \<and> (c = 0 \<or> c = 1)"
  by (auto simp: is_bit_set_def split: if_splits)

lemma set_bit_bm_Inr:
  "set_bit_bm bm k = Inr bm' \<Longrightarrow>
     0 \<le> k \<and> nat (k div 8) < length bm \<and>
     bm' = bm[nat (k div 8) := bm ! nat (k div 8) OR push_bit (nat (k mod 8)) 1]"
  by (auto simp: set_bit_bm_def split: if_splits)

lemma set_bit_bm_same:
  assumes "set_bit_bm bm k = Inr bm'"
  shows "is_bit_set bm' k = Inr 1"
proof -
  from set_bit_bm_Inr[OF assms] have k: "0 \<le> k" "nat (k div 8) < length bm"
    and bm': "bm' = bm[nat (k div 8) := bm ! nat (k div 8) OR push_bit (nat (k mod 8)) 1]"
    by auto
  have "nat (k mod 8) < 8" by simp
  then show ?thesis using k bm'
    by (simp add: is_bit_set_in bit_simps)
qed

lemma set_bit_bm_other:
  assumes "set_bit_bm bm k = Inr bm'" and "j \<noteq> k"
  shows "is_bit_set bm' j = is_bit_set bm j"
proof -
  from set_bit_bm_Inr[OF assms(1)] have k: "0 \<le> k" "nat (k div 8) < length bm"
    and bm': "bm' = bm[nat (k div 8) := bm ! nat (k div 8) OR push_bit (nat (k mod 8)) 1]"
    by auto
  have len: "length bm' = length bm" using bm' by simp
  show ?thesis
  proof (cases "0 \<le> j \<and> nat (j div 8) < length bm")
    case False
    then show ?thesis using len by (auto simp: is_bit_set_def)
  next
    case True
    show ?thesis
    proof (cases "j div 8 = k div 8")
      case False
      then have "nat (j div 8) \<noteq> nat (k div 8)" using True k by auto
      then show ?thesis using True len bm' by (simp add: is_bit_set_in)
    next
      case same: True
      have "j mod 8 \<noteq> k mod 8"
      proof
        assume "j mod 8 = k mod 8"
        then have "j = k" using same by (metis mult_div_mod_eq)
        with assms(2) show False by simp
      qed
      then have "nat (j mod 8) \<noteq> nat (k mod 8)" by auto
      moreover have "nat (j mod 8) < 8" "nat (k mod 8) < 8" by simp_all
      ultimately show ?thesis using True len bm' same k
        by (auto simp add: is_bit_set_in bit_simps)
    qed
  qed
qed

lemma set_bit_bm_length:
  "set_bit_bm bm k = Inr bm' \<Longrightarrow> length bm' = length bm"
  by (auto dest: set_bit_bm_Inr)

lemma bdrv_write_mark_bits:
  "bdrv_write_mark bm a n i = Inr bm' \<Longrightarrow>
     length bm' = length bm \<and>
     (\<forall>j. a + i \<le> j \<and> j < a + n \<longrightarrow> is_bit_set bm' j = Inr 1) \<and>
     (\<forall>j. \<not> (a + i \<le> j \<and> j < a + n) \<longrightarrow> is_bit_set bm' j = is_bit_set bm j)"
proof (induction bm a n i rule: bdrv_write_mark.induct)
  case (1 bitmap sector_num nb_sectors i)
  note unf = bdrv_write_mark.simps[of bitmap sector_num nb_sectors i]
  show ?case
  proof (cases "i < nb_sectors")
    case False
    with "1.prems" have "bm' = bitmap" by (simp add: unf)
    with False show ?thesis by auto
  next
    case True
    with "1.prems" obtain bm1 where
      s: "set_bit_bm bitmap (sector_num + i) = Inr bm1" and
      r: "bdrv_write_mark bm1 sector_num nb_sectors (i + 1) = Inr bm'"
      by (auto simp: unf split: sum.splits)
    note ih = "1.IH"[OF True s r]
    have len: "length bm' = length bitmap" using ih set_bit_bm_length[OF s] by simp
    have inside: "is_bit_set bm' j = Inr 1"
      if "sector_num + i \<le> j" "j < sector_num + nb_sectors" for j
    proof (cases "j = sector_num + i")
      case True
      then have "\<not> (sector_num + (i + 1) \<le> j \<and> j < sector_num + nb_sectors)" by simp
      with ih have "is_bit_set bm' j = is_bit_set bm1 j" by blast
      with True set_bit_bm_same[OF s] show ?thesis by simp
    next
      case False
      with that have "sector_num + (i + 1) \<le> j \<and> j < sector_num + nb_sectors" by simp
      with ih show ?thesis by blast
    qed
    have outside: "is_bit_set bm' j = is_bit_set bitmap j"
      if "\<not> (sector_num + i \<le> j \<and> j < sector_num + nb_sectors)" for j
    proof -
      from that have "\<not> (sector_num + (i + 1) \<le> j \<and> j < sector_num + nb_sectors)" by auto
      with ih have "is_bit_set bm' j = is_bit_set bm1 j" by blast
      moreover from that True have "j \<noteq> sector_num + i" by auto
      ultimately show ?thesis using set_bit_bm_other[OF s] by simp
    qed
    from len inside outside show ?thesis by blast
  qed
qed

subsection \<open>The loop of the run scanner\<close>

lemma is_changed_loop_run:
  "is_changed_loop bm s nb c k = Inr n \<Longrightarrow>
     (\<forall>j. s + k \<le> j \<and> j < s + n \<longrightarrow> is_bit_set bm j = Inr c) \<and>
     (n < nb \<longrightarrow> (\<exists>c'. is_bit_set bm (s + n) = Inr c' \<and> c' \<noteq> c))"
proof (induction bm s nb c k rule: is_changed_loop.induct)
  case (1 bitmap sector_num nb_sectors changed num_same)
  note unf = is_changed_loop.simps[of bitmap sector_num nb_sectors changed num_same]
  show ?case
  proof (cases "num_same < nb_sectors")
    case False
    with "1.prems" have "n = num_same" by (simp add: unf)
    with False show ?thesis by auto
  next
    case True
    note lt = this
    with "1.prems" obtain b where b: "is_bit_set bitmap (sector_num + num_same) = Inr b"
      by (auto simp: unf split: sum.splits)
    show ?thesis
    proof (cases "b \<noteq> changed")
      case True
      with lt b "1.prems" have "n = num_same" by (simp add: unf)
      with True b show ?thesis by auto
    next
      case False
      with lt b "1.prems"
      have r: "is_changed_loop bitmap sector_num nb_sectors changed (num_same + 1) = Inr n"
        by (simp add: unf)
      note ih = "1.IH"[OF lt b False r]
      have "is_bit_set bitmap j = Inr changed"
        if "sector_num + num_same \<le> j" "j < sector_num + n" for j
      proof (cases "j = sector_num + num_same")
        case True
        with b False show ?thesis by simp
      next
        case False
        with that have "sector_num + (num_same + 1) \<le> j \<and> j < sector_num + n" by simp
        with ih show ?thesis by blast
      qed
      with ih show ?thesis by blast
    qed
  qed
qed

lemma is_changed_loop_defined:
  "0 \<le> s + k \<Longrightarrow> s + nb \<le> 8 * int (length bm) \<Longrightarrow>
     \<exists>n. is_changed_loop bm s nb c k = Inr n"
proof (induction bm s nb c k rule: is_changed_loop.induct)
  case (1 bitmap sector_num nb_sectors changed num_same)
  note unf = is_changed_loop.simps[of bitmap sector_num nb_sectors changed num_same]
  show ?case
  proof (cases "num_same < nb_sectors")
    case False
    then show ?thesis by (simp add: unf)
  next
    case True
    with "1.prems" have "0 \<le> sector_num + num_same"
      "nat ((sector_num + num_same) div 8) < length bitmap" by auto
    then obtain b where b: "is_bit_set bitmap (sector_num + num_same) = Inr b"
      by (simp add: is_bit_set_in)
    show ?thesis
    proof (cases "b \<noteq> changed")
      case True
      with \<open>num_same < nb_sectors\<close> b show ?thesis by (simp add: unf)
    next
      case False
      from "1.IH"[OF \<open>num_same < nb_sectors\<close> b False] "1.prems"
      obtain n where "is_changed_loop bitmap sector_num nb_sectors changed (num_same + 1) = Inr n"
        by auto
      with \<open>num_same < nb_sectors\<close> b False show ?thesis by (simp add: unf)
    qed
  qed
qed

lemma is_changed_Some_run:
  assumes nb: "1 \<le> nb" and r: "is_changed (Some bm) s nb = Inr (c, n)"
  shows "is_bit_set bm s = Inr c \<and> 1 \<le> n \<and> n \<le> nb \<and>
         (\<forall>j. s \<le> j \<and> j < s + n \<longrightarrow> is_bit_set bm j = Inr c) \<and>
         (n < nb \<longrightarrow> (\<exists>c'. is_bit_set bm (s + n) = Inr c' \<and> c' \<noteq> c))"
proof -
  from nb r have c: "is_bit_set bm s = Inr c" and l: "is_changed_loop bm s nb c 1 = Inr n"
    by (auto simp: is_changed_def split: sum.splits)
  note run = is_changed_loop_run[OF l]
  from is_changed_num_same[OF _ r] nb have b: "1 \<le> n" "n \<le> nb" by auto
  have "is_bit_set bm j = Inr c" if j: "s \<le> j \<and> j < s + n" for j
  proof (cases "j = s")
    case True
    with c show ?thesis by simp
  next
    case False
    with j have "s + 1 \<le> j \<and> j < s + n" by simp
    with run show ?thesis by blast
  qed
  with c b run show ?thesis by blast
qed

lemma is_changed_Some_defined:
  assumes nb: "1 \<le> nb" and rng: "0 \<le> s \<and> s + nb \<le> 8 * int (length bm)"
  shows "\<exists>c n. is_changed (Some bm) s nb = Inr (c, n)"
proof -
  from nb rng have "0 \<le> s" "nat (s div 8) < length bm" by auto
  then obtain c where c: "is_bit_set bm s = Inr c" by (simp add: is_bit_set_in)
  from rng is_changed_loop_defined[of s 1 nb bm c]
  obtain n where "is_changed_loop bm s nb c 1 = Inr n" by auto
  with c nb show ?thesis by (simp add: is_changed_def)
qed

lemma is_changed_loop_clean:
  "k \<le> nb \<Longrightarrow> (\<forall>j. s + k \<le> j \<and> j < s + nb \<longrightarrow> is_bit_set bm j = Inr c) \<Longrightarrow>
     is_changed_loop bm s nb c k = Inr nb"
proof (induction bm s nb c k rule: is_changed_loop.induct)
  case (1 bitmap sector_num nb_sectors changed num_same)
  note unf = is_changed_loop.simps[of bitmap sector_num nb_sectors changed num_same]
  show ?case
  proof (cases "num_same < nb_sectors")
    case False
    with "1.prems" have "num_same = nb_sectors" by simp
    then show ?thesis by (subst is_changed_loop.simps) simp
  next
    case True
    with "1.prems" have b: "is_bit_set bitmap (sector_num + num_same) = Inr changed" by simp
    from "1.IH"[OF True b] True "1.prems"
    have "is_changed_loop bitmap sector_num nb_sectors changed (num_same + 1) = Inr nb_sectors"
      by simp
    with True b show ?thesis by (simp add: unf)
  qed
qed

lemma is_changed_uniform:
  assumes "1 \<le> nb" and "\<forall>j. s \<le> j \<and> j < s + nb \<longrightarrow> is_bit_set bm j = Inr c"
  shows "is_changed (Some bm) s nb = Inr (c, nb)"
proof -
  from assms have "is_bit_set bm s = Inr c" by simp
  moreover from assms have "is_changed_loop bm s nb c 1 = Inr nb"
    by (intro is_changed_loop_clean) auto
  ultimately show ?thesis using assms(1) by (simp add: is_changed_def)
qed

subsection \<open>What the system calls leave alone\<close>

lemma get_ofd_set_pos:
  "get_ofd s k = Some d \<Longrightarrow>
     get_ofd (set_pos s k d p) k' = (if k' = k then Some (d\<lparr>pos := p\<rparr>) else get_ofd s k')"
  by (auto simp: get_ofd_def set_pos_def nth_list_update split: if_splits)

lemma set_pos_frame [simp]:
  "names (set_pos s k d p) = names s" "inodes (set_pos s k d p) = inodes s"
  "stderr (set_pos s k d p) = stderr s" "mapped (set_pos s k d p) = mapped s"
  by (simp_all add: set_pos_def)

lemma lseek64_set_frame:
  assumes "lseek64_set s k off = (r, s1)"
  shows "names s1 = names s" "inodes s1 = inodes s" "stderr s1 = stderr s"
    "map_option ino (get_ofd s1 k') = map_option ino (get_ofd s k')"
    "map_option rdwr (get_ofd s1 k') = map_option rdwr (get_ofd s k')"
  using assms
  by (auto simp: lseek64_set_def get_ofd_set_pos split: option.splits if_splits)

lemma lseek64_set_ok:
  assumes "lseek64_set s k off = (r, s1)" and "r \<noteq> - 1"
  shows "\<exists>d. get_ofd s k = Some d \<and> 0 \<le> off \<and> r = off \<and> s1 = set_pos s k d (nat off)"
  using assms by (auto simp: lseek64_set_def split: option.splits if_splits)

lemma sys_write_frame:
  assumes "sys_write s k buf count = (r, s1)"
  shows "names s1 = names s" "length (inodes s1) = length (inodes s)"
    "(\<forall>d. get_ofd s k = Some d \<longrightarrow> ino d \<noteq> i) \<Longrightarrow> inodes s1 ! i = inodes s ! i"
  using assms
  by (auto simp: sys_write_def Let_def split: option.splits if_splits)

lemma sys_write_ok:
  assumes "sys_write s k buf count = (r, s1)" and "r \<noteq> - 1"
  shows "\<exists>d. get_ofd s k = Some d \<and> ino d < length (inodes s) \<and> 0 \<le> count \<and>
           r = int (length (take (nat count) buf)) \<and>
           inodes s1 ! ino d =
             (inodes s ! ino d)\<lparr>data := store_at (data (inodes s ! ino d)) (pos d) (take (nat count) buf)\<rparr>"
  using assms
  by (auto simp: sys_write_def Let_def split: option.splits if_splits)

lemma get_ofd_inodes: "get_ofd (s\<lparr>inodes := x\<rparr>) k = get_ofd s k"
  by (simp add: get_ofd_def)

lemma sys_write_fd:
  assumes "sys_write s k buf count = (r, s1)"
  shows "mapped s1 = mapped s"
    "map_option ino (get_ofd s1 k') = map_option ino (get_ofd s k')"
  using assms
  by (auto simp: sys_write_def Let_def get_ofd_set_pos get_ofd_inodes
      split: option.splits if_splits)

lemma map_store_frame:
  assumes "map_store s bs bitmap = Inr s1"
  shows "names s1 = names s" "length (inodes s1) = length (inodes s)"
    "(\<forall>d. get_ofd s (cow_fd bs) = Some d \<longrightarrow> ino d \<noteq> i) \<Longrightarrow> inodes s1 ! i = inodes s ! i"
  using assms
  by (auto simp: map_store_def split: option.splits if_splits)

lemma map_store_ok:
  assumes "map_store s bs bitmap = Inr s1" and "get_ofd s (cow_fd bs) = Some c"
    and "ino c < length (inodes s)"
  shows "inodes s1 ! ino c =
           (inodes s ! ino c)\<lparr>data :=
              (case mapped s (cow_bitmap_addr bs) of
                 None \<Rightarrow> data (inodes s ! ino c)
               | Some off \<Rightarrow> overwrite (data (inodes s ! ino c)) off bitmap)\<rparr>"
    and "\<forall>off. mapped s (cow_bitmap_addr bs) = Some off \<longrightarrow>
           off + length bitmap \<le> length (data (inodes s ! ino c))"
  using assms
  by (auto simp: map_store_def split: option.splits if_splits)

lemma store_at_readback:
  "take (length bytes) (drop p (store_at old p bytes)) = bytes"
  by (simp add: store_at_def min_def)

lemma overwrite_beyond:
  "off + length bitmap \<le> p \<Longrightarrow> off + length bitmap \<le> length old \<Longrightarrow>
     drop p (overwrite old off bitmap) = drop p old"
  by (simp add: overwrite_def min_def)

subsection \<open>Reading sectors that are not dirty\<close>

lemma is_changed_all_clean:
  assumes "1 \<le> nb" and "\<forall>j. s \<le> j \<and> j < s + nb \<longrightarrow> clean bs j"
  shows "is_changed (cow_bitmap bs) s nb = Inr (0, nb)"
proof (cases "cow_bitmap bs")
  case None
  then show ?thesis by (simp add: is_changed_def)
next
  case (Some bm)
  with assms(2) have "\<forall>j. s \<le> j \<and> j < s + nb \<longrightarrow> is_bit_set bm j = Inr 0"
    by (simp add: clean_def)
  from is_changed_uniform[OF assms(1) this] Some show ?thesis by simp
qed

lemma bdrv_read_all_clean:
  assumes "fd bs < 0" and "\<forall>j. s \<le> j \<and> j < s + nb \<longrightarrow> clean bs j"
    and "nb * 512 \<le> 2147483647" and "fits_int64 s \<and> fits_int64 (s + nb)"
  shows "bdrv_read sy bs s buf nb = Inr (0, buf @ replicate (nat (nb * 512)) 0, sy)"
proof (cases "0 < nb")
  case False
  then show ?thesis by (simp add: bdrv_read.simps)
next
  case True
  with assms(2) have "is_changed (cow_bitmap bs) s nb = Inr (0, nb)"
    by (intro is_changed_all_clean) auto
  with True assms(1,3,4) show ?thesis
    by (simp add: bdrv_read.simps[of sy bs s buf nb] bdrv_read.simps[of sy bs "s + nb" _ 0]
        fits_int_def)
qed

lemma sys_read_length:
  "sys_read sy k count = (ret, bytes, sy') \<Longrightarrow> ret = count \<Longrightarrow> 0 \<le> count \<Longrightarrow>
     int (length bytes) = count"
  by (auto simp: sys_read_def Let_def split: option.splits if_splits)

lemma bdrv_read_slices:
  "bdrv_read sy bs a buf nb = Inr (0, out, sy') \<Longrightarrow> fd bs < 0 \<Longrightarrow>
     \<exists>rest. out = buf @ rest \<and> int (length rest) = (if 0 < nb then nb * 512 else 0) \<and>
       (\<forall>i. a \<le> i \<and> i < a + nb \<and> clean bs i \<longrightarrow>
          take 512 (drop (nat ((i - a) * 512)) rest) = replicate 512 0)"
proof (induction sy bs a buf nb arbitrary: out rule: bdrv_read.induct)
  case (1 s bs sector_num buf nb_sectors)
  note unf = bdrv_read.simps[of s bs sector_num buf nb_sectors]
  show ?case
  proof (cases "0 < nb_sectors")
    case False
    with "1.prems" show ?thesis by (simp add: unf)
  next
    case pos: True
    from "1.prems"(1) pos obtain changed n where
      ch: "is_changed (cow_bitmap bs) sector_num nb_sectors = Inr (changed, n)"
      by (auto simp: unf split: sum.splits)
    from is_changed_num_same[OF pos ch] have n: "1 \<le> n" "n \<le> nb_sectors" by auto
    obtain fildes offset where sel:
      "(if changed \<noteq> 0 then (cow_fd bs, cow_sectors_offset bs) else (fd bs, 0)) = (fildes, offset)"
      by (cases "(if changed \<noteq> 0 then (cow_fd bs, cow_sectors_offset bs) else (fd bs, 0))") auto
    \<comment> \<open>the run is uniform\<close>
    have run: "\<not> (clean bs i \<and> changed \<noteq> 0)" if "sector_num \<le> i" "i < sector_num + n" for i
    proof (cases "cow_bitmap bs")
      case None
      with ch show ?thesis by (simp add: is_changed_def)
    next
      case (Some bm)
      with is_changed_Some_run[of nb_sectors bm sector_num changed n] pos ch that
      have "is_bit_set bm i = Inr changed" by auto
      with Some show ?thesis by (auto simp: clean_def)
    qed
    show ?thesis
    proof (cases "fildes < 0")
      case neg: True
      let ?chunk = "replicate (nat (n * 512)) (0 :: byte)"
      from "1.prems"(1) pos ch sel neg
      have fit: "\<not> \<not> (fits_int (n * 512) \<and> fits_int64 (sector_num + n))"
        by (auto simp: unf split: if_splits)
      from "1.prems"(1) pos ch sel neg fit
      have rec: "bdrv_read s bs (sector_num + n) (buf @ ?chunk) (nb_sectors - n) = Inr (0, out, sy')"
        by (simp add: unf)
      from "1.IH"(1)[OF pos ch refl sel[symmetric] neg fit rec "1.prems"(2)]
      obtain rest where out: "out = (buf @ ?chunk) @ rest"
        and len: "int (length rest) = (if 0 < nb_sectors - n then (nb_sectors - n) * 512 else 0)"
        and sl: "\<forall>i. sector_num + n \<le> i \<and> i < sector_num + n + (nb_sectors - n) \<and> clean bs i \<longrightarrow>
                 take 512 (drop (nat ((i - (sector_num + n)) * 512)) rest) = replicate 512 0"
        by auto
      have l2: "int (length (?chunk @ rest)) = nb_sectors * 512"
        using len n by (auto simp: algebra_simps)
      have "take 512 (drop (nat ((i - sector_num) * 512)) (?chunk @ rest)) = replicate 512 0"
        if i: "sector_num \<le> i" "i < sector_num + nb_sectors" "clean bs i" for i
      proof (cases "i < sector_num + n")
        case True
        with i have "nat ((i - sector_num) * 512) + 512 \<le> nat (n * 512)" by auto
        then show ?thesis by (simp add: min_def)
      next
        case False
        with i sl have "take 512 (drop (nat ((i - (sector_num + n)) * 512)) rest) = replicate 512 0"
          by auto
        moreover from False i n
        have "nat ((i - sector_num) * 512) = nat (n * 512) + nat ((i - (sector_num + n)) * 512)"
          by (auto simp: nat_add_distrib[symmetric] algebra_simps)
        ultimately show ?thesis by simp
      qed
      with out l2 pos show ?thesis by (intro exI[of _ "?chunk @ rest"]) auto
    next
      case nonneg: False
      obtain retl s1 where lk: "lseek64_set s fildes (offset + sector_num * 512) = (retl, s1)"
        by (cases "lseek64_set s fildes (offset + sector_num * 512)")
      obtain ret bytes s2 where rd: "sys_read s1 fildes (n * 512) = (ret, bytes, s2)"
        by (cases "sys_read s1 fildes (n * 512)") auto
      from "1.prems"(1) pos ch sel nonneg
      have f64: "\<not> \<not> (fits_int64 (sector_num * 512) \<and> fits_int64 (offset + sector_num * 512))"
        by (auto simp: unf split: if_splits)
      from "1.prems"(1) pos ch sel nonneg f64 lk have fit: "\<not> \<not> fits_int (n * 512)"
        by (auto simp: unf split: if_splits)
      from "1.prems"(1) pos ch sel nonneg f64 fit lk rd have ret: "ret = n * 512"
        by (auto simp: unf split: if_splits)
      from "1.prems"(1) pos ch sel nonneg f64 fit lk rd ret
      have rec: "bdrv_read s2 bs (sector_num + n) (buf @ bytes) (nb_sectors - n) = Inr (0, out, sy')"
        by (simp add: unf)
      have ret': "\<not> ret \<noteq> n * 512" using ret by simp
      from "1.IH"(2)[OF pos ch refl sel[symmetric] nonneg f64 lk[symmetric] fit rd[symmetric] refl ret' rec "1.prems"(2)]
      obtain rest where out: "out = (buf @ bytes) @ rest"
        and len: "int (length rest) = (if 0 < nb_sectors - n then (nb_sectors - n) * 512 else 0)"
        and sl: "\<forall>i. sector_num + n \<le> i \<and> i < sector_num + n + (nb_sectors - n) \<and> clean bs i \<longrightarrow>
                 take 512 (drop (nat ((i - (sector_num + n)) * 512)) rest) = replicate 512 0"
        by auto
      from sys_read_length[OF rd ret] n have lb: "int (length bytes) = n * 512" by simp
      have l2: "int (length (bytes @ rest)) = nb_sectors * 512"
        using len n lb by (auto simp: algebra_simps)
      from sel nonneg "1.prems"(2) have chg: "changed \<noteq> 0" by (auto split: if_splits)
      have "take 512 (drop (nat ((i - sector_num) * 512)) (bytes @ rest)) = replicate 512 0"
        if i: "sector_num \<le> i" "i < sector_num + nb_sectors" "clean bs i" for i
      proof (cases "i < sector_num + n")
        case True
        with run[OF i(1) True] i(3) chg show ?thesis by simp
      next
        case False
        with i sl have "take 512 (drop (nat ((i - (sector_num + n)) * 512)) rest) = replicate 512 0"
          by auto
        moreover from False i n lb
        have "nat ((i - sector_num) * 512) = length bytes + nat ((i - (sector_num + n)) * 512)"
          by (auto simp: algebra_simps)
        ultimately show ?thesis by simp
      qed
      with out l2 pos show ?thesis by (intro exI[of _ "bytes @ rest"]) auto
    qed
  qed
qed

subsection \<open>Committing\<close>

text \<open>Whatever \<^verbatim>\<open>bdrv_commit\<close> returns, the device state after it is the one before:
  the bitmap pointer is put back after every sector that is written.\<close>

lemma bdrv_write_no_bitmap_state:
  "cow_bitmap bs = None \<Longrightarrow> bdrv_write s bs a buf n = Inr (r, bs', s') \<Longrightarrow> bs' = bs"
  by (auto simp: bdrv_write_def split: if_splits prod.splits)

lemma bdrv_commit_loop_state:
  "bdrv_commit_loop s bs bitmap i = Inr (r, bs', s') \<Longrightarrow> cow_bitmap bs = Some bitmap \<Longrightarrow>
     bs' = bs"
proof (induction s bs bitmap i rule: bdrv_commit_loop.induct)
  case (1 s bs bitmap i)
  note unf = bdrv_commit_loop.simps[of s bs bitmap i]
  have restore: "bs\<lparr>cow_bitmap := None\<rparr>\<lparr>cow_bitmap := Some bitmap\<rparr> = bs"
    using "1.prems"(2) by simp
  show ?case
  proof (cases "i < total_sectors bs")
    case False
    with "1.prems" show ?thesis by (simp add: unf)
  next
    case lt: True
    with "1.prems"(1) obtain b where b: "is_bit_set bitmap i = Inr b"
      by (auto simp: unf split: sum.splits)
    show ?thesis
    proof (cases "b \<noteq> 0")
      case False
      with lt b "1.prems"(1) have "bdrv_commit_loop s bs bitmap (i + 1) = Inr (r, bs', s')"
        by (simp add: unf)
      from "1.IH"(2)[OF lt b False this "1.prems"(2)] show ?thesis .
    next
      case dirty: True
      with lt b "1.prems"(1) obtain rr sector s1 where
        rd: "bdrv_read s bs i [] 1 = Inr (rr, sector, s1)"
        by (auto simp: unf split: sum.splits)
      show ?thesis
      proof (cases "rr \<noteq> 0")
        case True
        with lt b dirty rd "1.prems"(1) show ?thesis by (simp add: unf)
      next
        case rok: False
        with lt b dirty rd "1.prems"(1) obtain w bs1 s2 where
          wr: "bdrv_write s1 (bs\<lparr>cow_bitmap := None\<rparr>) i sector 1 = Inr (w, bs1, s2)"
          by (auto simp: unf split: sum.splits)
        from bdrv_write_no_bitmap_state[OF _ wr] have bs1: "bs1 = bs\<lparr>cow_bitmap := None\<rparr>"
          by simp
        show ?thesis
        proof (cases "w \<noteq> 0")
          case True
          with lt b dirty rd rok wr "1.prems"(1) bs1 restore show ?thesis by (simp add: unf)
        next
          case wok: False
          with lt b dirty rd rok wr "1.prems"(1)
          have "bdrv_commit_loop s2 (bs1\<lparr>cow_bitmap := Some bitmap\<rparr>) bitmap (i + 1) = Inr (r, bs', s')"
            by (simp add: unf)
          from "1.IH"(1)[OF lt b dirty rd refl refl rok wr refl refl wok this]
          show ?thesis using bs1 restore "1.prems"(2) by simp
        qed
      qed
    qed
  qed
qed

lemma bdrv_commit_state:
  "bdrv_commit s bs = Inr (r, bs', s') \<Longrightarrow> bs' = bs"
  by (auto simp: bdrv_commit_def split: option.splits if_splits dest: bdrv_commit_loop_state)

subsection \<open>Opening\<close>

lemma first_free_le: "first_free t \<le> length t"
  by (induction t rule: first_free.induct) auto

lemma first_free_None: "first_free t < length t \<Longrightarrow> t ! first_free t = None"
  by (induction t rule: first_free.induct) auto

lemma get_ofd_install:
  "get_ofd (s\<lparr>fdt := install (fdt s) (first_free (fdt s)) d\<rparr>) k =
     (if k = int (first_free (fdt s)) then Some d else get_ofd s k)"
  using first_free_le[of "fdt s"] first_free_None[of "fdt s"]
  by (auto simp: get_ofd_def install_def nth_append nth_list_update)

lemma sys_open_ok:
  assumes "names s path = Some i" "i < length (inodes s)" "rw \<longrightarrow> writable (inodes s ! i)"
  shows "\<exists>k s1. sys_open s path rw = (k, s1) \<and> 0 \<le> k \<and> k = int (first_free (fdt s)) \<and>
           names s1 = names s \<and> inodes s1 = inodes s \<and> stderr s1 = stderr s \<and>
           (\<forall>k'. get_ofd s1 k' = (if k' = k then Some \<lparr>ino = i, pos = 0, rdwr = rw\<rparr> else get_ofd s k'))"
  using assms by (auto simp: sys_open_def get_ofd_install)

lemma sys_open_fail:
  assumes "names s path = Some i" "i < length (inodes s)" "\<not> writable (inodes s ! i)"
  shows "sys_open s path True = (- 1, s)"
  using assms by (simp add: sys_open_def)

lemma sys_close_frame:
  "names (sys_close s k) = names s" "inodes (sys_close s k) = inodes s"
  "stderr (sys_close s k) = stderr s"
  "get_ofd (sys_close s k) k' = (if k' = k then None else get_ofd s k')"
  by (auto simp: sys_close_def get_ofd_def nth_list_update split: option.splits if_splits)

lemma munmap_frame:
  "names (munmap s a l) = names s" "inodes (munmap s a l) = inodes s"
  "stderr (munmap s a l) = stderr s" "get_ofd (munmap s a l) k = get_ofd s k"
  by (simp_all add: munmap_def get_ofd_def)

lemma eprint_frame:
  "names (eprint s m) = names s" "inodes (eprint s m) = inodes s"
  "stderr (eprint s m) = stderr s @ [m]" "get_ofd (eprint s m) k = get_ofd s k"
  by (simp_all add: eprint_def get_ofd_def)

lemma sys_read_ok:
  assumes "get_ofd s k = Some d" "ino d < length (inodes s)" "0 \<le> count"
  shows "sys_read s k count =
           (int (length (take (nat count) (drop (pos d) (data (inodes s ! ino d))))),
            take (nat count) (drop (pos d) (data (inodes s ! ino d))),
            set_pos s k d (pos d + length (take (nat count) (drop (pos d) (data (inodes s ! ino d))))))"
  using assms by (simp add: sys_read_def Let_def)

lemma get_ofd_first_free: "get_ofd s (int (first_free (fdt s))) = None"
  using first_free_None[of "fdt s"] by (auto simp: get_ofd_def)

lemma bdrv_open_image_stale:
  assumes k: "get_ofd s k = Some \<lparr>ino = i, pos = 0, rdwr = rw\<rparr>"
    and i: "i < length (inodes s)"
    and len: "sizeof_cow_header cfg \<le> length (data (inodes s ! i))"
    and hdr: "hdr = load_cow_header cfg (take (sizeof_cow_header cfg) (data (inodes s ! i)))"
    and cow: "magic hdr = htonl cfg (COW_MAGIC cfg)" "version hdr = htonl cfg (COW_VERSION cfg)"
    and bf: "backing_file hdr \<noteq> []"
    and j: "names s (backing_file hdr) = Some j" "j < length (inodes s)"
    and stale: "st_mtime (inodes s ! j) \<noteq> htonl cfg (mtime hdr)"
  shows "\<exists>s'. bdrv_open_image cfg e s bs0 k path snapshot = (None, s') \<and>
           names s' = names s \<and> inodes s' = inodes s \<and>
           (\<forall>k'. get_ofd s' k' = (if k' = k then None else get_ofd s k')) \<and>
           stderr s' = stderr s @
             [Fprintf ''%s: original raw disk image '%s' does not match saved timestamp\<newline>''
                [Str path, Str (backing_file hdr)]]"
proof -
  let ?d = "\<lparr>ino = i, pos = 0, rdwr = rw\<rparr>"
  let ?n = "sizeof_cow_header cfg"
  let ?raw = "take ?n (data (inodes s ! i))"
  let ?s1 = "set_pos s k ?d (0 + length ?raw)"
  have k0: "0 \<le> k" using k by (auto simp: get_ofd_def split: if_splits)
  have rd: "sys_read s k (int ?n) = (int ?n, ?raw, ?s1)"
    using sys_read_ok[OF k, of "int ?n"] i len by simp
  have st: "sys_stat ?s1 (backing_file hdr) = Some (st_mtime (inodes s ! j))"
    using j by (simp add: sys_stat_def)
  let ?msg = "Fprintf ''%s: original raw disk image '%s' does not match saved timestamp\<newline>''
                [Str path, Str (backing_file hdr)]"
  let ?sz = "sint (if WORDS_BIGENDIAN cfg then size_field hdr else bswap64 (size_field hdr))"
  let ?bs1 = "bs0\<lparr>fd := k, total_sectors := c_div ?sz 512, cow_fd := k, fd := - 1\<rparr>"
  have res: "bdrv_open_image cfg e s bs0 k path snapshot = (None, bdrv_close (eprint ?s1 ?msg) ?bs1)"
    using rd st cow bf stale hdr[symmetric]
    by (simp add: bdrv_open_image_def Let_def bdrv_open_fail_def)
  let ?s2 = "if cow_bitmap_addr ?bs1 \<noteq> 0
             then munmap (eprint ?s1 ?msg) (cow_bitmap_addr ?bs1) (cow_bitmap_size ?bs1)
             else eprint ?s1 ?msg"
  have cl: "bdrv_close (eprint ?s1 ?msg) ?bs1 = sys_close ?s2 k"
    using k0 by (simp add: bdrv_close_def Let_def)
  have f2: "names ?s2 = names s" "inodes ?s2 = inodes s" "stderr ?s2 = stderr s @ [?msg]"
    by (simp_all add: munmap_frame eprint_frame)
  have g2: "get_ofd ?s2 k' = get_ofd ?s1 k'" for k'
    by (simp add: munmap_frame eprint_frame)
  have g: "get_ofd (sys_close ?s2 k) k' = (if k' = k then None else get_ofd s k')" for k'
    using k g2 by (simp add: sys_close_frame get_ofd_set_pos)
  show ?thesis
    unfolding res cl using g f2 by (simp add: sys_close_frame)
qed

subsection \<open>The example states evaluated\<close>

lemmas sys_simps = lseek64_set_def get_ofd_def set_pos_def sys_read_def sys_write_def store_at_def
  eprint_def Let_def fits_int_def fits_int64_def map_store_def overwrite_def writes_mapping_def

lemma le_word_replicate4: "le_word (replicate 4 (0x11 :: byte)) = (0x11111111 :: 32 word)"
  by code_simp

lemma snap_open:
  "bdrv_open example_vl_h example_env base_sys ''disk.img'' 1 = (Some snap_bs, snap_sys)"
  by (simp add: bdrv_open_def example_env_def blk0_def base_sys_def snap_sys_def snap_bs_def
      sys_open_def install_def bdrv_open_image_def example_vl_h_def sys_read_def get_ofd_def
      set_pos_def Let_def example_load_def le_word_replicate4 htonl_def bswap32_def
      lseek64_end_def bdrv_open_snapshot_def c_div_def sys_mkstemp_def sys_unlink_def
      mmap_anon_def MAP_FAILED_def to_int_def fun_eq_iff)

lemma snap_write_1:
  "bdrv_write snap_sys snap_bs 1 (replicate 512 0xFF) 1 = Inr (0, snap_bs_1, snap_sys_1)"
  by (simp add: bdrv_write_def snap_sys_def snap_bs_def snap_sys_1_def snap_bs_1_def sys_simps
      bdrv_write_mark.simps set_bit_bm_def)

lemmas snap_defs = snap_sys_def snap_bs_def snap_sys_1_def snap_bs_1_def snap_sys_2_def
  snap_sys_3_def

lemmas read_simps = bdrv_read.simps is_changed_def is_changed_loop.simps is_bit_set_def

lemma length_stale_header: "length stale_header = 28"
  by (simp add: stale_header_def)

lemma stale_load: "example_load stale_header =
   \<lparr>magic = 0x4d4f4f4f, version = 0x02000000, backing_file = ''base'', mtime = 0x07000000,
     size_field = 0x0004000000000000\<rparr>"
  by code_simp

lemma length_plain_header: "length plain_header = 28"
  by (simp add: plain_header_def)

lemma plain_load: "example_load plain_header =
   \<lparr>magic = 0x4d4f4f4f, version = 0x02000000, backing_file = [], mtime = 0,
     size_field = 0x0004000000000000\<rparr>"
  by code_simp

lemma plain_open:
  "bdrv_open example_vl_h example_env (plain_sys\<lparr>fdt := [], mapped := Map.empty\<rparr>)
     ''disk.cow'' 0 = (Some plain_bs, plain_sys)"
  by (simp add: bdrv_open_def example_env_def blk0_def plain_sys_def plain_bs_def
      sys_open_def install_def bdrv_open_image_def example_vl_h_def sys_read_def get_ofd_def
      set_pos_def Let_def htonl_def bswap32_def bswap64_def c_div_def
      bdrv_open_cow_map_def bdrv_open_snapshot_def mmap_shared_def MAP_FAILED_def
      length_plain_header plain_load to_int_def)

lemma plain_read_2:
  "bdrv_read plain_sys plain_bs 0 [] 2 =
     Inr (0, replicate 512 0 @ replicate 512 0xFF,
          plain_sys\<lparr>fdt := [Some \<lparr>ino = 0, pos = 1536, rdwr = True\<rparr>]\<rparr>)"
  by (simp add: read_simps plain_sys_def plain_bs_def sys_simps length_plain_header)

lemma length_based_header: "length based_header = 28"
  by (simp add: based_header_def)

lemma based_load: "example_load based_header =
   \<lparr>magic = 0x4d4f4f4f, version = 0x02000000, backing_file = ''base'', mtime = 0x08000000,
     size_field = 0x0004000000000000\<rparr>"
  by code_simp

lemma based_open:
  "bdrv_open example_vl_h example_env (based_sys\<lparr>fdt := [], mapped := Map.empty\<rparr>)
     ''disk.cow'' 0 = (Some based_bs, based_sys)"
  by (simp add: bdrv_open_def example_env_def blk0_def based_sys_def based_bs_def
      sys_open_def install_def bdrv_open_image_def example_vl_h_def sys_read_def get_ofd_def
      set_pos_def Let_def htonl_def bswap32_def bswap64_def c_div_def sys_stat_def
      bdrv_open_cow_map_def bdrv_open_snapshot_def mmap_shared_def MAP_FAILED_def
      length_based_header based_load to_int_def)

lemma based_write:
  "bdrv_write based_sys based_bs 1 (replicate 512 0xFF) 1 =
     Inr (0, based_bs\<lparr>cow_bitmap := Some [2]\<rparr>, based_sys_1)"
  by (simp add: bdrv_write_def based_sys_def based_bs_def based_sys_1_def sys_simps
      bdrv_write_mark.simps set_bit_bm_def length_based_header)

lemma length_self_header: "length self_header = 28"
  by (simp add: self_header_def)

lemma self_load: "example_load self_header =
   \<lparr>magic = 0x4d4f4f4f, version = 0x02000000, backing_file = ''a.cow'', mtime = 0x09000000,
     size_field = 0x0004000000000000\<rparr>"
  by code_simp

lemma self_open:
  "bdrv_open example_vl_h example_env (self_sys\<lparr>fdt := [], mapped := Map.empty\<rparr>)
     ''a.cow'' 0 = (Some self_bs, self_sys)"
  by (simp add: bdrv_open_def example_env_def blk0_def self_sys_def self_bs_def
      sys_open_def install_def bdrv_open_image_def example_vl_h_def sys_read_def get_ofd_def
      set_pos_def Let_def htonl_def bswap32_def bswap64_def c_div_def sys_stat_def
      bdrv_open_cow_map_def bdrv_open_snapshot_def mmap_shared_def MAP_FAILED_def
      length_self_header self_load to_int_def)

lemma self_write:
  "bdrv_write self_sys self_bs 0 (replicate 512 0xAA) 1 =
     Inr (0, self_bs\<lparr>cow_bitmap := Some [1]\<rparr>, self_sys_1)"
  by (simp add: bdrv_write_def self_sys_def self_bs_def self_sys_1_def sys_simps
      bdrv_write_mark.simps set_bit_bm_def length_self_header)

lemma length_blank_header: "length blank_header = 28"
  by (simp add: blank_header_def)

lemma blank_load: "example_load blank_header =
   \<lparr>magic = 0x4d4f4f4f, version = 0x02000000, backing_file = [], mtime = 0,
     size_field = 0x0000000001000000\<rparr>"
  by code_simp

lemma blank_open:
  "bdrv_open example_vl_h example_env (blank_sys\<lparr>fdt := [], mapped := Map.empty\<rparr>)
     ''blank.cow'' 0 = (Some blank_bs, blank_sys)"
  by (simp add: bdrv_open_def example_env_def blk0_def blank_sys_def blank_bs_def
      sys_open_def install_def bdrv_open_image_def example_vl_h_def sys_read_def get_ofd_def
      set_pos_def Let_def htonl_def bswap32_def bswap64_def c_div_def
      bdrv_open_cow_map_def bdrv_open_snapshot_def mmap_shared_def MAP_FAILED_def
      length_blank_header blank_load to_int_def)

lemma blank_run:
  assumes "1 \<le> nb" "nb \<le> 8388608"
  shows "is_changed (cow_bitmap blank_bs) 0 nb = Inr (0, nb)"
proof -
  have "is_bit_set (replicate 1048576 0) j = Inr 0" if "0 \<le> j \<and> j < 0 + nb" for j
  proof -
    from that assms have "nat (j div 8) < 1048576" by auto
    with that show ?thesis by (simp add: is_bit_set_def)
  qed
  with is_changed_uniform[OF assms(1), of 0 "replicate 1048576 0" 0] show ?thesis
    by (simp add: blank_bs_def)
qed

section \<open>The claims\<close>

text \<open>C1 says that a successful commit detaches the overlay, so that later reads are
  served from the backing store. In the source \<^verbatim>\<open>bdrv_commit\<close> puts the bitmap pointer
  back after every sector and clears nothing (\<open>bdrv_commit_state\<close>). A raw image of two sectors is opened
  with a snapshot and its sector 1 is written with bytes \<open>0xFF\<close>. The commit then
  returns 0 and the device state is the one before: the bitmap is still there with
  the bit of sector 1 set, the scanner reports the sector dirty, a later write of
  bytes \<open>0xAA\<close> goes to the overlay, and the read that follows returns them although
  the backing file holds \<open>0xFF\<close> in that sector.\<close>

theorem bdrv_commit_keeps_overlay:
  "bdrv_open example_vl_h example_env base_sys ''disk.img'' 1 = (Some snap_bs, snap_sys) \<and>
   bdrv_write snap_sys snap_bs 1 (replicate 512 0xFF) 1 = Inr (0, snap_bs_1, snap_sys_1) \<and>
   bdrv_commit snap_sys_1 snap_bs_1 = Inr (0, snap_bs_1, snap_sys_2) \<and>
   cow_bitmap snap_bs_1 = Some [2] \<and>
   is_changed (cow_bitmap snap_bs_1) 1 1 = Inr (1, 1) \<and>
   bdrv_write snap_sys_2 snap_bs_1 1 (replicate 512 0xAA) 1 = Inr (0, snap_bs_1, snap_sys_3) \<and>
   bdrv_read snap_sys_3 snap_bs_1 1 [] 1 = Inr (0, replicate 512 0xAA, snap_sys_3) \<and>
   data (inodes snap_sys_3 ! 0) = replicate 512 0x11 @ replicate 512 0xFF"
proof -
  have a: "bdrv_commit snap_sys_1 snap_bs_1 = Inr (0, snap_bs_1, snap_sys_2)"
    by (simp add: bdrv_commit_def bdrv_commit_loop.simps bdrv_write_def read_simps snap_defs
        sys_simps bdrv_write_mark.simps set_bit_bm_def)
  have b: "cow_bitmap snap_bs_1 = Some [2]" by (simp add: snap_defs)
  have c: "is_changed (cow_bitmap snap_bs_1) 1 1 = Inr (1, 1)"
    by (simp add: read_simps snap_defs)
  have d: "bdrv_write snap_sys_2 snap_bs_1 1 (replicate 512 0xAA) 1 = Inr (0, snap_bs_1, snap_sys_3)"
    by (simp add: bdrv_write_def snap_defs sys_simps bdrv_write_mark.simps set_bit_bm_def)
  have e: "bdrv_read snap_sys_3 snap_bs_1 1 [] 1 = Inr (0, replicate 512 0xAA, snap_sys_3)"
    by (simp add: read_simps snap_defs sys_simps)
  have f: "data (inodes snap_sys_3 ! 0) = replicate 512 0x11 @ replicate 512 0xFF"
    by (simp add: snap_defs)
  from snap_open snap_write_1 a b c d e f show ?thesis by blast
qed

text \<open>C2 says that a path longer than the field \<^verbatim>\<open>filename\<close> (1024 bytes) is refused.
  The source copies the path with \<^verbatim>\<open>strcpy\<close> and compares its length with nothing: a
  path of 1028 characters is opened like any other, and all of it is stored through
  \<^verbatim>\<open>bs->filename\<close>.\<close>

theorem bdrv_open_long_path:
  "length long_path = 1028 \<and>
   bdrv_open example_vl_h example_env long_sys long_path 0 =
     (Some \<lparr>fd = 0, total_sectors = 2, read_only = 0, cow_bitmap = None, cow_bitmap_addr = 0,
           cow_bitmap_size = 0, cow_fd = - 1, cow_sectors_offset = 0, filename = long_path\<rparr>,
      long_sys\<lparr>fdt := [Some \<lparr>ino = 0, pos = 1024, rdwr = True\<rparr>]\<rparr>)"
proof -
  have "length long_path = 1028"
    by (simp add: long_path_def length_concat sum_list_replicate)
  moreover have "bdrv_open example_vl_h example_env long_sys long_path 0 =
     (Some \<lparr>fd = 0, total_sectors = 2, read_only = 0, cow_bitmap = None, cow_bitmap_addr = 0,
           cow_bitmap_size = 0, cow_fd = - 1, cow_sectors_offset = 0, filename = long_path\<rparr>,
      long_sys\<lparr>fdt := [Some \<lparr>ino = 0, pos = 1024, rdwr = True\<rparr>]\<rparr>)"
    by (simp add: bdrv_open_def example_env_def blk0_def long_sys_def sys_open_def install_def
        bdrv_open_image_def example_vl_h_def sys_read_def get_ofd_def set_pos_def Let_def
        example_load_def le_word_replicate4 htonl_def bswap32_def lseek64_end_def
        bdrv_open_snapshot_def c_div_def)
  ultimately show ?thesis by blast
qed

text \<open>C3. On a handle whose \<^verbatim>\<open>read_only\<close> flag is set, every \<^verbatim>\<open>bdrv_write\<close> returns the
  error value \<open>-1\<close> and leaves the device state, with its dirty bitmap, and every
  file as they were.\<close>

theorem bdrv_write_read_only_fails:
  "read_only bs \<noteq> 0 \<Longrightarrow> bdrv_write s bs sector_num buf nb_sectors = Inr (- 1, bs, s)"
  by (simp add: bdrv_write_def)

theorem bdrv_write_read_only_fails_witness:
  "read_only ro_bs \<noteq> 0 \<and>
   bdrv_write ro_sys ro_bs 1 (replicate 512 0xFF) 1 = Inr (- 1, ro_bs, ro_sys)"
  using bdrv_write_read_only_fails[of ro_bs ro_sys 1 "replicate 512 0xFF" 1]
  by (simp add: ro_bs_def)

text \<open>C4, as amended. With an overlay present (\<^verbatim>\<open>cow_bitmap\<close> not \<^verbatim>\<open>NULL\<close>), \<^verbatim>\<open>bdrv_write\<close>
  changes no file but the one that the overlay descriptor \<^verbatim>\<open>cow_fd\<close> refers to: names
  and every other file keep their bytes. The file of the backing descriptor \<^verbatim>\<open>fd\<close>
  keeps its bytes whenever it is another file than the overlay's, which nothing in
  \<^verbatim>\<open>bdrv_open\<close> ensures. When the call succeeds, all \<^verbatim>\<open>nb_sectors * 512\<close> bytes were
  written; the overlay's file is the old one with these bytes stored at
  \<^verbatim>\<open>cow_sectors_offset + sector_num * 512\<close> and then, where the bitmap is a mapping
  shared with the file, with the new bitmap stored at its place; and the bytes
  written are read back from the file at their offset.\<close>

theorem bdrv_write_overlay_only:
  assumes bm: "cow_bitmap bs = Some bm"
    and w: "bdrv_write s bs sector_num buf nb_sectors = Inr (r, bs', s')"
  shows "names s' = names s \<and> length (inodes s') = length (inodes s) \<and>
     (\<forall>i. (\<forall>d. get_ofd s (cow_fd bs) = Some d \<longrightarrow> ino d \<noteq> i) \<longrightarrow>
          inodes s' ! i = inodes s ! i) \<and>
     (\<forall>b c. get_ofd s (fd bs) = Some b \<and> get_ofd s (cow_fd bs) = Some c \<and> ino b \<noteq> ino c \<longrightarrow>
          inodes s' ! ino b = inodes s ! ino b) \<and>
     (r = 0 \<longrightarrow>
        (\<exists>c bm'. get_ofd s (cow_fd bs) = Some c \<and> cow_bitmap bs' = Some bm' \<and>
             int (length (take (nat (nb_sectors * 512)) buf)) = nb_sectors * 512 \<and>
             inodes s' ! ino c =
               (inodes s ! ino c)\<lparr>data :=
                  (case mapped s (cow_bitmap_addr bs) of
                     None \<Rightarrow>
                       store_at (data (inodes s ! ino c))
                         (nat (cow_sectors_offset bs + sector_num * 512))
                         (take (nat (nb_sectors * 512)) buf)
                   | Some off \<Rightarrow>
                       overwrite
                         (store_at (data (inodes s ! ino c))
                            (nat (cow_sectors_offset bs + sector_num * 512))
                            (take (nat (nb_sectors * 512)) buf))
                         off bm')\<rparr> \<and>
             take (nat (nb_sectors * 512))
               (drop (nat (cow_sectors_offset bs + sector_num * 512))
                  (data (inodes s' ! ino c))) =
               take (nat (nb_sectors * 512)) buf))"
proof (cases "read_only bs \<noteq> 0")
  case True
  with w show ?thesis by (simp add: bdrv_write_def)
next
  case ro: False
  let ?p = "cow_sectors_offset bs + sector_num * 512"
  let ?n = "nb_sectors * 512"
  let ?bytes = "take (nat ?n) buf"
  from w ro bm have f64: "fits_int64 (sector_num * 512) \<and> fits_int64 ?p"
    by (auto simp: bdrv_write_def split: if_splits)
  obtain retl s1 where l: "lseek64_set s (cow_fd bs) ?p = (retl, s1)"
    by (cases "lseek64_set s (cow_fd bs) ?p")
  note lf = lseek64_set_frame[OF l]
  show ?thesis
  proof (cases "retl = - 1")
    case True
    with w ro bm l f64 have "r = - 1" "s' = s1" by (auto simp: bdrv_write_def)
    with lf show ?thesis by simp
  next
    case seek: False
    from lseek64_set_ok[OF l seek] obtain c where c: "get_ofd s (cow_fd bs) = Some c"
      and off: "0 \<le> ?p" and s1: "s1 = set_pos s (cow_fd bs) c (nat ?p)"
      by auto
    have c1: "get_ofd s1 (cow_fd bs) = Some (c\<lparr>pos := nat ?p\<rparr>)"
      using c s1 by (simp add: get_ofd_set_pos)
    have m1: "mapped s1 = mapped s" using s1 by simp
    from w ro bm l f64 seek have fit: "fits_int ?n"
      and nal: "\<not> writes_mapping s1 bs (cow_fd bs) ?p ?n"
      by (auto simp: bdrv_write_def split: if_splits)
    obtain ret s2 where wr: "sys_write s1 (cow_fd bs) buf ?n = (ret, s2)"
      by (cases "sys_write s1 (cow_fd bs) buf ?n")
    note wf = sys_write_frame[OF wr]
    note wd = sys_write_fd[OF wr]
    have frame1: "inodes s2 ! i = inodes s ! i"
      if "\<forall>d. get_ofd s (cow_fd bs) = Some d \<longrightarrow> ino d \<noteq> i" for i
    proof -
      from that c have "ino c \<noteq> i" by simp
      with c1 have "\<forall>d. get_ofd s1 (cow_fd bs) = Some d \<longrightarrow> ino d \<noteq> i" by simp
      from wf(3)[OF this] lf(2) show ?thesis by simp
    qed
    show ?thesis
    proof (cases "ret \<noteq> ?n")
      case True
      with w ro bm l f64 seek fit nal wr have "r = - 1" "s' = s2"
        by (auto simp: bdrv_write_def)
      with frame1 wf(1,2) lf(1,2) show ?thesis by simp
    next
      case full: False
      with w ro bm l f64 seek fit nal wr obtain bm' where
        mk: "bdrv_write_mark bm sector_num nb_sectors 0 = Inr bm'"
        and st: "map_store s2 bs bm' = Inr s'" and bs': "bs' = bs\<lparr>cow_bitmap := Some bm'\<rparr>"
        by (auto simp: bdrv_write_def split: sum.splits)
      note sf = map_store_frame[OF st]
      from bdrv_write_mark_bits[OF mk] have lbm: "length bm' = length bm" by simp
      have "ret \<noteq> - 1"
      proof
        assume "ret = - 1"
        with full have "nb_sectors * 512 = - 1" by simp
        then show False by presburger
      qed
      from sys_write_ok[OF wr this] c1 full
      have ic: "ino c < length (inodes s1)" and cnt: "0 \<le> ?n"
        and lb: "int (length ?bytes) = ?n"
        and d2: "inodes s2 ! ino c =
                   (inodes s1 ! ino c)\<lparr>data := store_at (data (inodes s1 ! ino c)) (nat ?p) ?bytes\<rparr>"
        by auto
      from wd(2)[of "cow_fd bs"] c1 obtain c2 where
        c2: "get_ofd s2 (cow_fd bs) = Some c2" and i2: "ino c2 = ino c"
        by (cases "get_ofd s2 (cow_fd bs)") auto
      have frame: "inodes s' ! i = inodes s ! i"
        if "\<forall>d. get_ofd s (cow_fd bs) = Some d \<longrightarrow> ino d \<noteq> i" for i
      proof -
        from that c have "ino c \<noteq> i" by simp
        with c2 i2 have "\<forall>d. get_ofd s2 (cow_fd bs) = Some d \<longrightarrow> ino d \<noteq> i" by simp
        from sf(3)[OF this] frame1[OF that] show ?thesis by simp
      qed
      let ?old = "data (inodes s ! ino c)"
      let ?W = "store_at ?old (nat ?p) ?bytes"
      from ic wf(2) have ic2: "ino c2 < length (inodes s2)" using i2 by simp
      note mo = map_store_ok[OF st c2 ic2]
      have dW: "data (inodes s2 ! ino c) = ?W" using d2 lf(2) by simp
      have fin: "inodes s' ! ino c =
                   (inodes s ! ino c)\<lparr>data :=
                      (case mapped s (cow_bitmap_addr bs) of
                         None \<Rightarrow> ?W | Some off \<Rightarrow> overwrite ?W off bm')\<rparr>"
        using mo(1) i2 d2 lf(2) wd(1) m1 by (simp split: option.splits)
      have readback: "take (nat ?n) (drop (nat ?p) (data (inodes s' ! ino c))) = ?bytes"
      proof (cases "mapped s (cow_bitmap_addr bs)")
        case None
        with fin have "data (inodes s' ! ino c) = ?W" by simp
        moreover from lb cnt have "nat ?n = length ?bytes" by simp
        ultimately show ?thesis using store_at_readback[of ?bytes "nat ?p" ?old] by simp
      next
        case (Some off)
        with fin have df: "data (inodes s' ! ino c) = overwrite ?W off bm'" by simp
        show ?thesis
        proof (cases "?n = 0")
          case True
          then show ?thesis by simp
        next
          case False
          with cnt have "0 < ?n" by simp
          with nal c1 Some m1 bm lbm have "int off + int (length bm') \<le> ?p"
            by (simp add: writes_mapping_def)
          with off have a: "off + length bm' \<le> nat ?p" by simp
          from mo(2) Some wd(1) m1 i2 dW have b: "off + length bm' \<le> length ?W" by simp
          from lb cnt have "nat ?n = length ?bytes" by simp
          with df overwrite_beyond[OF a b] store_at_readback[of ?bytes "nat ?p" ?old]
          show ?thesis by simp
        qed
      qed
      from w ro bm l f64 seek fit nal wr full mk st have r0: "r = 0"
        by (auto simp: bdrv_write_def)
      from frame sf(1,2) wf(1,2) lf(1,2) c bs' lb fin readback show ?thesis by auto
    qed
  qed
qed

theorem bdrv_write_overlay_only_witness:
  "bdrv_open example_vl_h example_env (based_sys\<lparr>fdt := [], mapped := Map.empty\<rparr>)
     ''disk.cow'' 0 = (Some based_bs, based_sys) \<and>
   cow_bitmap based_bs = Some [0] \<and>
   bdrv_write based_sys based_bs 1 (replicate 512 0xFF) 1 =
     Inr (0, based_bs\<lparr>cow_bitmap := Some [2]\<rparr>, based_sys_1) \<and>
   get_ofd based_sys (fd based_bs) = Some \<lparr>ino = 1, pos = 0, rdwr = False\<rparr> \<and>
   get_ofd based_sys (cow_fd based_bs) = Some \<lparr>ino = 0, pos = 28, rdwr = True\<rparr> \<and>
   mapped based_sys (cow_bitmap_addr based_bs) = Some 28 \<and>
   inodes based_sys_1 ! 1 = inodes based_sys ! 1 \<and>
   data (inodes based_sys_1 ! 0) =
     based_header @ [2] @ replicate 483 0 @ replicate 512 0 @ replicate 512 0xFF \<and>
   take 512 (drop 1024 (data (inodes based_sys_1 ! 0))) = replicate 512 0xFF"
proof -
  have h: "cow_bitmap based_bs = Some [0]" by (simp add: based_bs_def)
  have b: "get_ofd based_sys (fd based_bs) = Some \<lparr>ino = 1, pos = 0, rdwr = False\<rparr>"
    and c: "get_ofd based_sys (cow_fd based_bs) = Some \<lparr>ino = 0, pos = 28, rdwr = True\<rparr>"
    by (simp_all add: get_ofd_def based_sys_def based_bs_def)
  have m: "mapped based_sys (cow_bitmap_addr based_bs) = Some 28"
    by (simp add: based_sys_def based_bs_def)
  note t = bdrv_write_overlay_only[OF h based_write]
  from t b c have u: "inodes based_sys_1 ! 1 = inodes based_sys ! 1" by simp
  from t have "\<exists>c. get_ofd based_sys (cow_fd based_bs) = Some c \<and>
                 take (nat (1 * 512)) (drop (nat (cow_sectors_offset based_bs + 1 * 512))
                   (data (inodes based_sys_1 ! ino c))) = take (nat (1 * 512)) (replicate 512 0xFF)"
    by blast
  with c have "take (nat (1 * 512)) (drop (nat (cow_sectors_offset based_bs + 1 * 512))
                   (data (inodes based_sys_1 ! 0))) = take (nat (1 * 512)) (replicate 512 0xFF)"
    by auto
  then have r: "take 512 (drop 1024 (data (inodes based_sys_1 ! 0))) = replicate 512 0xFF"
    by (simp add: based_bs_def)
  have d: "data (inodes based_sys_1 ! 0) =
     based_header @ [2] @ replicate 483 0 @ replicate 512 0 @ replicate 512 0xFF"
    by (simp add: based_sys_1_def)
  from based_open h based_write b c m u d r show ?thesis by blast
qed

text \<open>C4 as stated fails for a COW image whose header names the image itself as its
  backing file. \<^verbatim>\<open>bdrv_open\<close> compares the modification time of the backing file and
  nothing else: it returns a handle with an overlay whose backing descriptor and
  overlay descriptor are on the same file. \<^verbatim>\<open>bdrv_write\<close> of sector 0 then succeeds and
  stores the bytes \<open>0xAA\<close> and the dirty bit in the file that the backing descriptor
  refers to: the backing file's bytes have changed.\<close>

theorem bdrv_write_self_backing_counterexample:
  "bdrv_open example_vl_h example_env (self_sys\<lparr>fdt := [], mapped := Map.empty\<rparr>)
     ''a.cow'' 0 = (Some self_bs, self_sys) \<and>
   cow_bitmap self_bs = Some [0] \<and>
   get_ofd self_sys (cow_fd self_bs) = Some \<lparr>ino = 0, pos = 28, rdwr = True\<rparr> \<and>
   get_ofd self_sys (fd self_bs) = Some \<lparr>ino = 0, pos = 0, rdwr = False\<rparr> \<and>
   bdrv_write self_sys self_bs 0 (replicate 512 0xAA) 1 =
     Inr (0, self_bs\<lparr>cow_bitmap := Some [1]\<rparr>, self_sys_1) \<and>
   data (inodes self_sys ! 0) =
     self_header @ [0] @ replicate 483 0 @ replicate 512 0xEE @ replicate 512 0xEE \<and>
   data (inodes self_sys_1 ! 0) =
     self_header @ [1] @ replicate 483 0 @ replicate 512 0xAA @ replicate 512 0xEE \<and>
   inodes self_sys_1 ! 0 \<noteq> inodes self_sys ! 0"
proof -
  have a: "cow_bitmap self_bs = Some [0]" by (simp add: self_bs_def)
  have b: "get_ofd self_sys (cow_fd self_bs) = Some \<lparr>ino = 0, pos = 28, rdwr = True\<rparr>"
    and c: "get_ofd self_sys (fd self_bs) = Some \<lparr>ino = 0, pos = 0, rdwr = False\<rparr>"
    by (simp_all add: get_ofd_def self_sys_def self_bs_def)
  have d: "data (inodes self_sys ! 0) =
     self_header @ [0] @ replicate 483 0 @ replicate 512 0xEE @ replicate 512 0xEE"
    by (simp add: self_sys_def)
  have e: "data (inodes self_sys_1 ! 0) =
     self_header @ [1] @ replicate 483 0 @ replicate 512 0xAA @ replicate 512 0xEE"
    by (simp add: self_sys_1_def)
  have "data (inodes self_sys_1 ! 0) \<noteq> data (inodes self_sys ! 0)"
    unfolding d e by simp
  then have f: "inodes self_sys_1 ! 0 \<noteq> inodes self_sys ! 0" by auto
  from self_open a b c self_write d e f show ?thesis by blast
qed

text \<open>C5. After a successful \<^verbatim>\<open>bdrv_write\<close> of \<open>n\<close> sectors from sector \<open>a\<close> on a handle
  with an overlay, only the bitmap of the device state has changed; every bit in
  \<open>[a, a+n)\<close> is set, whatever it was before, and every other bit is as before.\<close>

theorem bdrv_write_marks_range:
  assumes "cow_bitmap bs = Some bm"
    and "bdrv_write s bs a buf n = Inr (0, bs', s')"
  shows "\<exists>bm'. bs' = bs\<lparr>cow_bitmap := Some bm'\<rparr> \<and> length bm' = length bm \<and>
           (\<forall>i. a \<le> i \<and> i < a + n \<longrightarrow> is_bit_set bm' i = Inr 1) \<and>
           (\<forall>i. \<not> (a \<le> i \<and> i < a + n) \<longrightarrow> is_bit_set bm' i = is_bit_set bm i)"
proof -
  from assms obtain bm' where m: "bdrv_write_mark bm a n 0 = Inr bm'"
    and b: "bs' = bs\<lparr>cow_bitmap := Some bm'\<rparr>"
    by (auto simp: bdrv_write_def split: if_splits prod.splits sum.splits)
  from bdrv_write_mark_bits[OF m] b show ?thesis by (intro exI[of _ bm']) simp
qed

theorem bdrv_write_marks_range_witness:
  "cow_bitmap snap_bs = Some [0] \<and>
   bdrv_write snap_sys snap_bs 1 (replicate 512 0xFF) 1 = Inr (0, snap_bs_1, snap_sys_1) \<and>
   snap_bs_1 = snap_bs\<lparr>cow_bitmap := Some [2]\<rparr> \<and>
   is_bit_set [2] 1 = Inr 1 \<and> is_bit_set [2] 0 = is_bit_set [0] 0"
proof -
  have h: "cow_bitmap snap_bs = Some [0]" by (simp add: snap_bs_def)
  from bdrv_write_marks_range[OF h snap_write_1]
  have "is_bit_set [2] 1 = Inr 1 \<and> is_bit_set [2] 0 = is_bit_set [0] 0"
    by (auto simp: snap_bs_1_def snap_bs_def)
  with h snap_write_1 show ?thesis by (simp add: snap_bs_1_def)
qed

text \<open>C6, as amended. Without a bitmap, and for a requested length of 0, the run
  scanner returns "not dirty" and the requested length as the run length. For a
  requested length of at least 1 it returns the dirty state of the starting sector
  and the number of leading sectors that share it: between 1 and the requested
  length, all of the run in that state, and the sector after a shorter run in the
  other state. It returns whenever the requested sectors lie inside the bitmap.\<close>

theorem is_changed_run:
  "is_changed None s nb = Inr (0, nb) \<and>
   is_changed (Some bm) s 0 = Inr (0, 0) \<and>
   (1 \<le> nb \<longrightarrow>
      (\<forall>c n. is_changed (Some bm) s nb = Inr (c, n) \<longrightarrow>
         is_bit_set bm s = Inr c \<and> 1 \<le> n \<and> n \<le> nb \<and>
         (\<forall>j. s \<le> j \<and> j < s + n \<longrightarrow> is_bit_set bm j = Inr c) \<and>
         (n < nb \<longrightarrow> (\<exists>c'. is_bit_set bm (s + n) = Inr c' \<and> c' \<noteq> c))) \<and>
      (0 \<le> s \<and> s + nb \<le> 8 * int (length bm) \<longrightarrow>
         (\<exists>c n. is_changed (Some bm) s nb = Inr (c, n))))"
proof -
  have p1: "is_changed None s nb = Inr (0, nb)" by (simp add: is_changed_def)
  have p2: "is_changed (Some bm) s 0 = Inr (0, 0)" by (simp add: is_changed_def)
  from p1 p2 is_changed_Some_run[of nb bm s] is_changed_Some_defined[of nb s bm]
  show ?thesis by blast
qed

theorem is_changed_run_witness:
  "(1::int) \<le> 10 \<and> is_changed (Some [0x0E, 0x00]) 1 10 = Inr (1, 3) \<and>
   is_bit_set [0x0E, 0x00] 1 = Inr 1 \<and> is_bit_set [0x0E, 0x00] 2 = Inr 1 \<and>
   is_bit_set [0x0E, 0x00] 3 = Inr 1 \<and> is_bit_set [0x0E, 0x00] 4 = Inr 0 \<and>
   (0::int) \<le> 1 \<and> (1::int) + 10 \<le> 8 * int (length [0x0E :: byte, 0x00])"
  using is_changed_run[of 1 10 "[0x0E, 0x00]"]
  by (simp add: is_changed_def is_bit_set_def is_changed_loop.simps)

text \<open>C6 as stated fails for a requested length of 0: the starting sector is dirty and
  the scanner returns "not dirty".\<close>

theorem is_changed_zero_length_counterexample:
  "is_bit_set [0x01] 0 = Inr 1 \<and> is_changed (Some [0x01]) 0 0 = Inr (0, 0)"
  by (simp add: is_changed_def is_bit_set_def)

text \<open>C7, as amended. On a handle with no backing descriptor (\<^verbatim>\<open>fd\<close> negative),
  \<^verbatim>\<open>bdrv_read\<close> of sectors that are all clean (bit clear, or no bitmap) succeeds when
  the byte count \<^verbatim>\<open>nb_sectors * 512\<close> is in the range of \<^verbatim>\<open>int\<close> (fewer than 4194304
  sectors) and the sector numbers are in the range of \<^verbatim>\<open>int64_t\<close>: it returns 0, stores
  512 zero bytes for each sector and touches no file. And whenever a read succeeds
  on such a handle, the 512 bytes stored for each clean sector of the request are
  zeros.\<close>

theorem bdrv_read_zero_fill:
  assumes "fd bs < 0"
  shows "((\<forall>j. sector_num \<le> j \<and> j < sector_num + nb_sectors \<longrightarrow> clean bs j) \<and>
          nb_sectors * 512 \<le> 2147483647 \<and>
          fits_int64 sector_num \<and> fits_int64 (sector_num + nb_sectors) \<longrightarrow>
            bdrv_read s bs sector_num buf nb_sectors =
              Inr (0, buf @ replicate (nat (nb_sectors * 512)) 0, s)) \<and>
         (\<forall>out s'. bdrv_read s bs sector_num buf nb_sectors = Inr (0, out, s') \<longrightarrow>
            (\<exists>rest. out = buf @ rest \<and>
               int (length rest) = (if 0 < nb_sectors then nb_sectors * 512 else 0) \<and>
               (\<forall>i. sector_num \<le> i \<and> i < sector_num + nb_sectors \<and> clean bs i \<longrightarrow>
                  take 512 (drop (nat ((i - sector_num) * 512)) rest) = replicate 512 0)))"
  using bdrv_read_all_clean[OF assms, of sector_num nb_sectors s buf]
    bdrv_read_slices[of s bs sector_num buf nb_sectors _ _, OF _ assms]
  by blast

theorem bdrv_read_zero_fill_witness:
  "bdrv_open example_vl_h example_env (plain_sys\<lparr>fdt := [], mapped := Map.empty\<rparr>)
     ''disk.cow'' 0 = (Some plain_bs, plain_sys) \<and>
   fd plain_bs < 0 \<and> clean plain_bs 0 \<and> \<not> clean plain_bs 1 \<and>
   (1 :: int) * 512 \<le> 2147483647 \<and> fits_int64 0 \<and> fits_int64 (0 + 1) \<and>
   bdrv_read plain_sys plain_bs 0 [] 1 = Inr (0, replicate 512 0, plain_sys) \<and>
   bdrv_read plain_sys plain_bs 0 [] 2 =
     Inr (0, replicate 512 0 @ replicate 512 0xFF,
          plain_sys\<lparr>fdt := [Some \<lparr>ino = 0, pos = 1536, rdwr = True\<rparr>]\<rparr>) \<and>
   take 512 (drop 0 (replicate 512 0 @ replicate 512 (0xFF :: byte))) = replicate 512 0"
proof -
  have h: "fd plain_bs < 0" by (simp add: plain_bs_def)
  have c0: "clean plain_bs 0" and c1: "\<not> clean plain_bs 1"
    by (simp_all add: clean_def plain_bs_def is_bit_set_def)
  have rng: "(1 :: int) * 512 \<le> 2147483647" "fits_int64 0" "fits_int64 (0 + 1)"
    by (simp_all add: fits_int64_def)
  have "\<forall>j. (0::int) \<le> j \<and> j < 0 + 1 \<longrightarrow> clean plain_bs j"
  proof (intro allI impI)
    fix j :: int assume "0 \<le> j \<and> j < 0 + 1"
    then have "j = 0" by simp
    with c0 show "clean plain_bs j" by simp
  qed
  with bdrv_read_zero_fill[OF h, of 0 1 plain_sys "[]"] rng
  have r1: "bdrv_read plain_sys plain_bs 0 [] 1 = Inr (0, replicate 512 0, plain_sys)"
    by simp
  from bdrv_read_zero_fill[OF h, of 0 2 plain_sys "[]"] plain_read_2 c0
  have "take 512 (drop 0 (replicate 512 0 @ replicate 512 (0xFF :: byte))) = replicate 512 0"
    by simp
  with plain_open h c0 c1 rng r1 plain_read_2 show ?thesis by blast
qed

text \<open>C7 as stated fails for a request of 4194304 sectors or more. The new image of a
  disk of 8388608 sectors opens with no backing descriptor and a bitmap of zero
  bytes, so every sector is clean and the scanner reports the whole request as one
  clean run. For the whole disk, and for its first half, the byte count \<^verbatim>\<open>n * 512\<close> of
  \<^verbatim>\<open>memset\<close> is outside the range of \<^verbatim>\<open>int\<close>, where C leaves the program undefined:
  no success and no zero bytes are promised.\<close>

theorem bdrv_read_overflow_counterexample:
  "bdrv_open example_vl_h example_env (blank_sys\<lparr>fdt := [], mapped := Map.empty\<rparr>)
     ''blank.cow'' 0 = (Some blank_bs, blank_sys) \<and>
   fd blank_bs < 0 \<and> cow_bitmap blank_bs = Some (replicate 1048576 0) \<and>
   is_changed (cow_bitmap blank_bs) 0 8388608 = Inr (0, 8388608) \<and>
   \<not> fits_int (8388608 * 512) \<and>
   bdrv_read blank_sys blank_bs 0 [] 8388608 = Inl Int_overflow \<and>
   is_changed (cow_bitmap blank_bs) 0 4194304 = Inr (0, 4194304) \<and>
   \<not> fits_int (4194304 * 512) \<and>
   bdrv_read blank_sys blank_bs 0 [] 4194304 = Inl Int_overflow"
proof -
  have h: "fd blank_bs < 0" "cow_bitmap blank_bs = Some (replicate 1048576 0)"
    by (simp_all add: blank_bs_def)
  have a: "is_changed (cow_bitmap blank_bs) 0 8388608 = Inr (0, 8388608)"
    by (rule blank_run) simp_all
  have b: "is_changed (cow_bitmap blank_bs) 0 4194304 = Inr (0, 4194304)"
    by (rule blank_run) simp_all
  have f: "\<not> fits_int (8388608 * 512)" "\<not> fits_int (4194304 * 512)"
    by (simp_all add: fits_int_def)
  have ra: "bdrv_read blank_sys blank_bs 0 [] 8388608 = Inl Int_overflow"
    using a h(1) f(1) by (simp add: bdrv_read.simps[of blank_sys blank_bs 0 "[]" 8388608])
  have rb: "bdrv_read blank_sys blank_bs 0 [] 4194304 = Inl Int_overflow"
    using b h(1) f(2) by (simp add: bdrv_read.simps[of blank_sys blank_bs 0 "[]" 4194304])
  from blank_open h a b f ra rb show ?thesis by blast
qed

text \<open>C8. When the header of a COW image names a backing file whose modification time
  differs from the one the header stores, \<^verbatim>\<open>bdrv_open\<close> returns no handle; unless
  \<^verbatim>\<open>malloc\<close> had already failed, it reports that the image "does not match saved
  timestamp", and leaves names, files and descriptors as they were.\<close>

theorem bdrv_open_stale_backing:
  assumes i: "names s path = Some i" "i < length (inodes s)"
    and len: "sizeof_cow_header cfg \<le> length (data (inodes s ! i))"
    and hdr: "hdr = load_cow_header cfg (take (sizeof_cow_header cfg) (data (inodes s ! i)))"
    and cow: "magic hdr = htonl cfg (COW_MAGIC cfg)" "version hdr = htonl cfg (COW_VERSION cfg)"
    and bf: "backing_file hdr \<noteq> []"
    and j: "names s (backing_file hdr) = Some j" "j < length (inodes s)"
    and stale: "st_mtime (inodes s ! j) \<noteq> htonl cfg (mtime hdr)"
  shows "fst (bdrv_open cfg e s path snapshot) = None \<and>
     (malloc_bs e \<noteq> None \<longrightarrow>
        (\<exists>s'. bdrv_open cfg e s path snapshot = (None, s') \<and>
           names s' = names s \<and> inodes s' = inodes s \<and> (\<forall>k. get_ofd s' k = get_ofd s k) \<and>
           stderr s' = stderr s @
             [Fprintf ''%s: original raw disk image '%s' does not match saved timestamp\<newline>''
                [Str path, Str (backing_file hdr)]]))"
proof (cases "malloc_bs e")
  case None
  then show ?thesis by (simp add: bdrv_open_def)
next
  case (Some blk)
  let ?bs = "blk\<lparr>read_only := 0, fd := - 1, cow_fd := - 1, cow_bitmap := None, filename := path\<rparr>"
  let ?k = "int (first_free (fdt s))"
  have main: "\<exists>s'. bdrv_open cfg e s path snapshot = (None, s') \<and>
           names s' = names s \<and> inodes s' = inodes s \<and> (\<forall>k. get_ofd s' k = get_ofd s k) \<and>
           stderr s' = stderr s @
             [Fprintf ''%s: original raw disk image '%s' does not match saved timestamp\<newline>''
                [Str path, Str (backing_file hdr)]]"
  proof (cases "writable (inodes s ! i)")
    case True
    from sys_open_ok[OF i, of True] True obtain s1 where
      o: "sys_open s path True = (?k, s1)" and f: "names s1 = names s" "inodes s1 = inodes s"
        "stderr s1 = stderr s"
      and g: "\<forall>k'. get_ofd s1 k' = (if k' = ?k then Some \<lparr>ino = i, pos = 0, rdwr = True\<rparr> else get_ofd s k')"
      by auto
    from g have gk: "get_ofd s1 ?k = Some \<lparr>ino = i, pos = 0, rdwr = True\<rparr>" by simp
    from bdrv_open_image_stale[of s1 ?k i True cfg hdr j e ?bs path snapshot, OF gk]
      i len hdr cow bf j stale f
    obtain s' where r: "bdrv_open_image cfg e s1 ?bs ?k path snapshot = (None, s')"
      and p: "names s' = names s1" "inodes s' = inodes s1"
        "\<forall>k'. get_ofd s' k' = (if k' = ?k then None else get_ofd s1 k')"
        "stderr s' = stderr s1 @
             [Fprintf ''%s: original raw disk image '%s' does not match saved timestamp\<newline>''
                [Str path, Str (backing_file hdr)]]"
      by auto
    have "bdrv_open cfg e s path snapshot = (None, s')"
      using Some o r by (simp add: bdrv_open_def Let_def)
    moreover have "get_ofd s' k = get_ofd s k" for k
      using p(3) g get_ofd_first_free[of s] by simp
    ultimately show ?thesis using p f by auto
  next
    case False
    from sys_open_fail[OF i False] have o1: "sys_open s path True = (- 1, s)" .
    from sys_open_ok[OF i, of False] obtain s1 where
      o: "sys_open s path False = (?k, s1)" and f: "names s1 = names s" "inodes s1 = inodes s"
        "stderr s1 = stderr s"
      and g: "\<forall>k'. get_ofd s1 k' = (if k' = ?k then Some \<lparr>ino = i, pos = 0, rdwr = False\<rparr> else get_ofd s k')"
      by auto
    from g have gk: "get_ofd s1 ?k = Some \<lparr>ino = i, pos = 0, rdwr = False\<rparr>" by simp
    let ?bs' = "if snapshot = 0 then ?bs\<lparr>read_only := 1\<rparr> else ?bs"
    from bdrv_open_image_stale[of s1 ?k i False cfg hdr j e ?bs' path snapshot, OF gk]
      i len hdr cow bf j stale f
    obtain s' where r: "bdrv_open_image cfg e s1 ?bs' ?k path snapshot = (None, s')"
      and p: "names s' = names s1" "inodes s' = inodes s1"
        "\<forall>k'. get_ofd s' k' = (if k' = ?k then None else get_ofd s1 k')"
        "stderr s' = stderr s1 @
             [Fprintf ''%s: original raw disk image '%s' does not match saved timestamp\<newline>''
                [Str path, Str (backing_file hdr)]]"
      by auto
    have "bdrv_open cfg e s path snapshot = (None, s')"
      using Some o1 o r by (simp add: bdrv_open_def Let_def)
    moreover have "get_ofd s' k = get_ofd s k" for k
      using p(3) g get_ofd_first_free[of s] by simp
    ultimately show ?thesis using p f by auto
  qed
  then show ?thesis by auto
qed

theorem bdrv_open_stale_backing_witness:
  "names stale_sys ''disk.cow'' = Some 0 \<and>
   sizeof_cow_header example_vl_h \<le> length (data (inodes stale_sys ! 0)) \<and>
   load_cow_header example_vl_h (take (sizeof_cow_header example_vl_h) (data (inodes stale_sys ! 0)))
     = stale_hdr \<and>
   magic stale_hdr = htonl example_vl_h (COW_MAGIC example_vl_h) \<and>
   version stale_hdr = htonl example_vl_h (COW_VERSION example_vl_h) \<and>
   names stale_sys (backing_file stale_hdr) = Some 1 \<and>
   st_mtime (inodes stale_sys ! 1) = 8 \<and> htonl example_vl_h (mtime stale_hdr) = 7 \<and>
   bdrv_open example_vl_h example_env stale_sys ''disk.cow'' 0 =
     (None, stale_sys\<lparr>fdt := [None],
                      stderr := [Fprintf ''%s: original raw disk image '%s' does not match saved timestamp\<newline>''
                                   [Str ''disk.cow'', Str ''base'']]\<rparr>)"
proof -
  have i: "names stale_sys ''disk.cow'' = Some 0" "0 < length (inodes stale_sys)"
    by (simp_all add: stale_sys_def)
  have len: "sizeof_cow_header example_vl_h \<le> length (data (inodes stale_sys ! 0))"
    by (simp add: stale_sys_def example_vl_h_def length_stale_header)
  have hdr: "stale_hdr = load_cow_header example_vl_h
               (take (sizeof_cow_header example_vl_h) (data (inodes stale_sys ! 0)))"
    by (simp add: stale_sys_def example_vl_h_def length_stale_header stale_load stale_hdr_def)
  have cow: "magic stale_hdr = htonl example_vl_h (COW_MAGIC example_vl_h)"
    "version stale_hdr = htonl example_vl_h (COW_VERSION example_vl_h)"
    by (simp_all add: stale_hdr_def example_vl_h_def htonl_def bswap32_def)
  have bf: "backing_file stale_hdr \<noteq> []" by (simp add: stale_hdr_def)
  have j: "names stale_sys (backing_file stale_hdr) = Some 1" "1 < length (inodes stale_sys)"
    by (simp_all add: stale_sys_def stale_hdr_def)
  have m: "st_mtime (inodes stale_sys ! 1) = 8" "htonl example_vl_h (mtime stale_hdr) = 7"
    by (simp_all add: stale_sys_def stale_hdr_def example_vl_h_def htonl_def bswap32_def)
  then have stale: "st_mtime (inodes stale_sys ! 1) \<noteq> htonl example_vl_h (mtime stale_hdr)"
    by simp
  from bdrv_open_stale_backing[OF i len hdr cow bf j stale, of example_env 0]
  have none: "fst (bdrv_open example_vl_h example_env stale_sys ''disk.cow'' 0) = None" by simp
  have run: "bdrv_open example_vl_h example_env stale_sys ''disk.cow'' 0 =
     (None, stale_sys\<lparr>fdt := [None],
                      stderr := [Fprintf ''%s: original raw disk image '%s' does not match saved timestamp\<newline>''
                                   [Str ''disk.cow'', Str ''base'']]\<rparr>)"
    using hdr[symmetric] m
    by (simp add: bdrv_open_def example_env_def blk0_def sys_open_def install_def
        bdrv_open_image_def sys_read_def get_ofd_def set_pos_def Let_def
        sys_stat_def bdrv_open_fail_def bdrv_close_def munmap_def sys_close_def eprint_def
        stale_sys_def example_vl_h_def length_stale_header stale_load stale_hdr_def
        htonl_def bswap32_def)
  from i(1) len hdr[symmetric] cow j(1) m run none show ?thesis by blast
qed

text \<open>C9. Without a dirty bitmap \<^verbatim>\<open>bdrv_commit\<close> reads and writes nothing: the device
  state and the files are as before, the message "Already committed" goes to
  \<^verbatim>\<open>stderr\<close>, and the return value is 0, not the \<open>-1\<close> of a failed commit.\<close>

theorem bdrv_commit_no_overlay:
  "cow_bitmap bs = None \<Longrightarrow>
     bdrv_commit s bs =
       Inr (0, bs, s\<lparr>stderr := stderr s @ [Fprintf ''Already committed to %s\<newline>'' [Str (filename bs)]]\<rparr>)"
  by (simp add: bdrv_commit_def eprint_def)

theorem bdrv_commit_no_overlay_witness:
  "cow_bitmap ro_bs = None \<and>
   bdrv_commit ro_sys ro_bs =
     Inr (0, ro_bs, ro_sys\<lparr>stderr := [Fprintf ''Already committed to %s\<newline>'' [Str ''disk.img'']]\<rparr>)"
  using bdrv_commit_no_overlay[of ro_bs ro_sys]
  by (simp add: ro_bs_def ro_sys_def)

text \<open>C10. \<^verbatim>\<open>bdrv_read\<close> terminates on every request: its recursion is well-founded at
  every argument. For a positive \<^verbatim>\<open>nb_sectors\<close> the run length \<open>n\<close> that the scanner
  returns satisfies \<open>1 \<le> n \<le> nb_sectors\<close>, so the sectors that remain after a round
  are fewer.\<close>

theorem bdrv_read_terminates:
  "bdrv_read_dom (s, bs, sector_num, buf, nb_sectors) \<and>
   (0 < nb_sectors \<longrightarrow>
      (\<forall>changed n. is_changed (cow_bitmap bs) sector_num nb_sectors = Inr (changed, n) \<longrightarrow>
         1 \<le> n \<and> n \<le> nb_sectors \<and> nb_sectors - n < nb_sectors))"
proof
  have "All bdrv_read_dom"
  proof (relation "measure (\<lambda>(s, bs, sector_num, buf, nb_sectors). nat nb_sectors)", goal_cases)
    case 1
    show ?case by simp
  next
    case (2 s bs sector_num buf nb_sectors x2 changed n)
    then show ?case using is_changed_num_same[of nb_sectors "cow_bitmap bs" sector_num changed n]
      by simp
  next
    case (3 s bs sector_num buf nb_sectors x2 changed n)
    then show ?case using is_changed_num_same[of nb_sectors "cow_bitmap bs" sector_num changed n]
      by simp
  qed
  then show "bdrv_read_dom (s, bs, sector_num, buf, nb_sectors)" by simp
next
  show "0 < nb_sectors \<longrightarrow>
      (\<forall>changed n. is_changed (cow_bitmap bs) sector_num nb_sectors = Inr (changed, n) \<longrightarrow>
         1 \<le> n \<and> n \<le> nb_sectors \<and> nb_sectors - n < nb_sectors)"
    using is_changed_num_same[of nb_sectors "cow_bitmap bs" sector_num] by auto
qed

theorem bdrv_read_terminates_witness:
  "bdrv_read_dom (snap_sys_1, snap_bs_1, 0, [], 2) \<and> (0 :: int) < 2 \<and>
   is_changed (cow_bitmap snap_bs_1) 0 2 = Inr (0, 1)"
proof -
  have "is_changed (cow_bitmap snap_bs_1) 0 2 = Inr (0, 1)"
    by (simp add: snap_bs_1_def snap_bs_def is_changed_def is_bit_set_def is_changed_loop.simps)
  with bdrv_read_terminates[of snap_sys_1 snap_bs_1 0 "[]" 2] show ?thesis by simp
qed

end
